theory Spec2Isabelle
  imports Complex_Main "HOL-Library.Multiset"
begin

section \<open>JavaScript numbers\<close>

text \<open>
  The prediction engine computes with JavaScript numbers. A number is modelled as a
  real, one of the two infinities, or NaN. Division by zero, the square root of a
  negative number and comparisons with NaN behave as in ECMAScript. The operations of
  this section are exact: they do not round a result to 53 bits and do not overflow.
  The computations whose outcome depends on the rounding are given a second time, with
  the rounding of each operation explicit, in the section on the rounded computations.
  The sign of zero is not modelled (a zero divisor is taken as +0).
\<close>

datatype jsnum = Num real | PInf | NInf | NaN

fun jneg :: "jsnum \<Rightarrow> jsnum" where
  "jneg (Num a) = Num (- a)"
| "jneg PInf = NInf"
| "jneg NInf = PInf"
| "jneg NaN = NaN"

fun jadd :: "jsnum \<Rightarrow> jsnum \<Rightarrow> jsnum" where
  "jadd (Num a) (Num b) = Num (a + b)"
| "jadd NaN y = NaN"
| "jadd x NaN = NaN"
| "jadd PInf NInf = NaN"
| "jadd NInf PInf = NaN"
| "jadd PInf y = PInf"
| "jadd x PInf = PInf"
| "jadd NInf y = NInf"
| "jadd x NInf = NInf"

definition jsub :: "jsnum \<Rightarrow> jsnum \<Rightarrow> jsnum" where
  "jsub x y = jadd x (jneg y)"

fun jmul :: "jsnum \<Rightarrow> jsnum \<Rightarrow> jsnum" where
  "jmul (Num a) (Num b) = Num (a * b)"
| "jmul NaN y = NaN"
| "jmul x NaN = NaN"
| "jmul PInf (Num b) = (if b = 0 then NaN else if 0 < b then PInf else NInf)"
| "jmul NInf (Num b) = (if b = 0 then NaN else if 0 < b then NInf else PInf)"
| "jmul (Num a) PInf = (if a = 0 then NaN else if 0 < a then PInf else NInf)"
| "jmul (Num a) NInf = (if a = 0 then NaN else if 0 < a then NInf else PInf)"
| "jmul PInf PInf = PInf"
| "jmul PInf NInf = NInf"
| "jmul NInf PInf = NInf"
| "jmul NInf NInf = PInf"

fun jdiv :: "jsnum \<Rightarrow> jsnum \<Rightarrow> jsnum" where
  "jdiv (Num a) (Num b) =
     (if b = 0 then (if a = 0 then NaN else if 0 < a then PInf else NInf)
      else Num (a / b))"
| "jdiv NaN y = NaN"
| "jdiv x NaN = NaN"
| "jdiv (Num a) PInf = Num 0"
| "jdiv (Num a) NInf = Num 0"
| "jdiv PInf (Num b) = (if 0 \<le> b then PInf else NInf)"
| "jdiv NInf (Num b) = (if 0 \<le> b then NInf else PInf)"
| "jdiv PInf y = NaN"
| "jdiv NInf y = NaN"

text \<open>\<open>Math.pow(x, 2)\<close>, \<open>Math.sqrt\<close>, \<open>Math.exp\<close>, \<open>Math.sin\<close>.\<close>

fun jsquare :: "jsnum \<Rightarrow> jsnum" where
  "jsquare (Num a) = Num (a * a)"
| "jsquare PInf = PInf"
| "jsquare NInf = PInf"
| "jsquare NaN = NaN"

fun jsqrt :: "jsnum \<Rightarrow> jsnum" where
  "jsqrt (Num a) = (if a < 0 then NaN else Num (sqrt a))"
| "jsqrt PInf = PInf"
| "jsqrt NInf = NaN"
| "jsqrt NaN = NaN"

fun jexp :: "jsnum \<Rightarrow> jsnum" where
  "jexp (Num a) = Num (exp a)"
| "jexp PInf = PInf"
| "jexp NInf = Num 0"
| "jexp NaN = NaN"

fun jsin :: "jsnum \<Rightarrow> jsnum" where
  "jsin (Num a) = Num (sin a)"
| "jsin PInf = NaN"
| "jsin NInf = NaN"
| "jsin NaN = NaN"

text \<open>\<open>Math.round\<close> rounds to the nearest integer, a half towards plus infinity;
  \<open>Math.floor\<close> rounds down. Both keep NaN and the infinities.\<close>

fun jround :: "jsnum \<Rightarrow> jsnum" where
  "jround (Num a) = Num (of_int \<lfloor>a + 1 / 2\<rfloor>)"
| "jround PInf = PInf"
| "jround NInf = NInf"
| "jround NaN = NaN"

fun jfloor :: "jsnum \<Rightarrow> jsnum" where
  "jfloor (Num a) = Num (of_int \<lfloor>a\<rfloor>)"
| "jfloor PInf = PInf"
| "jfloor NInf = NInf"
| "jfloor NaN = NaN"

text \<open>The comparison \<open>x < y\<close>: false as soon as one side is NaN.\<close>

fun jlt :: "jsnum \<Rightarrow> jsnum \<Rightarrow> bool" where
  "jlt (Num a) (Num b) = (a < b)"
| "jlt NaN y = False"
| "jlt x NaN = False"
| "jlt NInf NInf = False"
| "jlt NInf y = True"
| "jlt x NInf = False"
| "jlt PInf y = False"
| "jlt x PInf = True"

definition jgt :: "jsnum \<Rightarrow> jsnum \<Rightarrow> bool" where
  "jgt x y = jlt y x"

text \<open>The comparison \<open>x <= y\<close>.\<close>

fun jle :: "jsnum \<Rightarrow> jsnum \<Rightarrow> bool" where
  "jle (Num a) (Num b) = (a \<le> b)"
| "jle NaN y = False"
| "jle x NaN = False"
| "jle NInf y = True"
| "jle x PInf = True"
| "jle PInf y = False"
| "jle x NInf = False"

text \<open>\<open>Math.min\<close> and \<open>Math.max\<close> of two arguments: NaN as soon as one is NaN.\<close>

definition jmin :: "jsnum \<Rightarrow> jsnum \<Rightarrow> jsnum" where
  "jmin x y = (if x = NaN \<or> y = NaN then NaN else if jlt y x then y else x)"

definition jmax :: "jsnum \<Rightarrow> jsnum \<Rightarrow> jsnum" where
  "jmax x y = (if x = NaN \<or> y = NaN then NaN else if jlt x y then y else x)"

text \<open>\<open>x || d\<close> on a number: the default when \<open>x\<close> is falsy (zero or NaN).\<close>

definition jor :: "jsnum \<Rightarrow> jsnum \<Rightarrow> jsnum" where
  "jor x d = (if x = NaN \<or> x = Num 0 then d else x)"

section \<open>Game records\<close>

text \<open>
  A game record as the engine reads it from the user data: the fields \<open>gameType\<close>,
  \<open>difficulty\<close>, \<open>score\<close>, \<open>playTime\<close>, \<open>mistakes\<close> (may be absent), \<open>completed\<close>
  and \<open>timestamp\<close> (milliseconds since the epoch, as \<open>Date.now()\<close> counts them).
  Numbers parsed from JSON are finite.
\<close>

record GameRecord =
  gameType :: string
  difficulty :: string
  score :: real
  playTime :: real
  mistakes :: "real option"
  completed :: bool
  timestamp :: int

text \<open>
  The exceptions of the engine: the \<open>Error\<close> that \<open>getUserData\<close> throws when the user
  data cannot be fetched, and the TypeError of the JavaScript runtime.
\<close>

datatype error = FetchFailed | TypeError

section \<open>Statistics helpers\<close>

definition mean :: "real list \<Rightarrow> jsnum" where
  "mean array = jdiv (Num (foldl (\<lambda>sum val. sum + val) 0 array)) (Num (real (length array)))"

definition variance :: "real list \<Rightarrow> jsnum" where
  "variance array =
     (let m = mean array
      in jdiv (foldl (\<lambda>sum val. jadd sum (jsquare (jsub (Num val) m))) (Num 0) array)
              (Num (real (length array))))"

text \<open>
  The loop of \<open>calculateTrend\<close> over \<open>i = 0 .. n - 1\<close>, with \<open>x[i] = i\<close>; the state is
  the pair (numerator, denominator).
\<close>

definition trendStep :: "jsnum \<Rightarrow> jsnum \<Rightarrow> real list \<Rightarrow> jsnum \<times> jsnum \<Rightarrow> nat \<Rightarrow> jsnum \<times> jsnum" where
  "trendStep xMean yMean array acc i =
     (case acc of (numerator, denominator) \<Rightarrow>
        (jadd numerator (jmul (jsub (Num (real i)) xMean) (jsub (Num (array ! i)) yMean)),
         jadd denominator (jsquare (jsub (Num (real i)) xMean))))"

definition calculateTrend :: "real list \<Rightarrow> jsnum" where
  "calculateTrend array =
     (if length array < 2 then Num 0
      else
        (let n = length array;
             x = map real [0..<n];
             xMean = mean x;
             yMean = mean array;
             (numerator, denominator) =
               foldl (trendStep xMean yMean array) (Num 0, Num 0) [0..<n]
         in if denominator = Num 0 then Num 0 else jdiv numerator denominator))"

definition calculateConsistency :: "real list \<Rightarrow> jsnum" where
  "calculateConsistency array =
     (if length array < 2 then Num 1
      else
        (let m = mean array;
             v = variance array;
             coefficientOfVariation = jdiv (jsqrt v) m
         in jmax (Num 0) (jsub (Num 1) coefficientOfVariation)))"

text \<open>
  \<open>array.slice(-k)\<close> keeps the last \<open>k\<close> elements (all of them when there are fewer);
  \<open>array.slice(-j, -k)\<close> keeps those from index \<open>max (n - j) 0\<close> up to, not including,
  index \<open>max (n - k) 0\<close>. Subtraction on \<open>nat\<close> stops at 0, as the \<open>max\<close> does.
\<close>

definition sliceLast :: "nat \<Rightarrow> 'a list \<Rightarrow> 'a list" where
  "sliceLast k xs = drop (length xs - k) xs"

definition sliceFromTo :: "nat \<Rightarrow> nat \<Rightarrow> 'a list \<Rightarrow> 'a list" where
  "sliceFromTo j k xs = drop (length xs - j) (take (length xs - k) xs)"

definition calculateRecentImprovement :: "real list \<Rightarrow> jsnum" where
  "calculateRecentImprovement array =
     (if length array < 10 then Num 0
      else
        (let recent = sliceLast 5 array;
             older = sliceFromTo 10 5 array
         in jsub (mean recent) (mean older)))"

text \<open>
  \<open>encoding[difficulty] || 2\<close> over the table easy 1, medium 2, hard 3, expert 4; any
  other difficulty string is taken as a key the table does not have.
\<close>

definition encodeDifficulty :: "string \<Rightarrow> real" where
  "encodeDifficulty d =
     (if d = ''easy'' then 1 else if d = ''medium'' then 2
      else if d = ''hard'' then 3 else if d = ''expert'' then 4 else 2)"

definition calculateGameExperience :: "GameRecord list \<Rightarrow> string \<Rightarrow> jsnum" where
  "calculateGameExperience games gt = Num (real (length (filter (\<lambda>g. gameType g = gt) games)))"

section \<open>Score prediction\<close>

record scoreFeatures =
  averageScore :: jsnum
  scoreTrend :: jsnum
  scoreVariance :: jsnum
  averagePlayTime :: jsnum
  averageMistakes :: jsnum
  completionRate :: jsnum
  recentImprovement :: jsnum
  consistency :: jsnum
  difficultyLevel :: jsnum
  gameExperience :: jsnum

definition getDefaultFeatures :: scoreFeatures where
  "getDefaultFeatures =
     \<lparr> averageScore = Num 50, scoreTrend = Num 0, scoreVariance = Num 25,
       averagePlayTime = Num 300, averageMistakes = Num 3, completionRate = Num (7 / 10),
       recentImprovement = Num 0, consistency = Num (1 / 2), difficultyLevel = Num 2,
       gameExperience = Num 5 \<rparr>"

text \<open>
  \<open>now\<close> is the value of \<open>Date.now()\<close> during the call; \<open>games\<close> is \<open>userData.games\<close>.
\<close>

definition extractScoreFeatures :: "int \<Rightarrow> GameRecord list \<Rightarrow> string \<Rightarrow> string \<Rightarrow> scoreFeatures" where
  "extractScoreFeatures now games gt d =
     (let recentGames =
            filter (\<lambda>g. gameType g = gt \<and> difficulty g = d \<and>
                        timestamp g > now - 30 * 24 * 60 * 60 * 1000) games
      in if length recentGames < 5 then getDefaultFeatures
         else
           (let scores = map score recentGames;
                playTimes = map playTime recentGames;
                mistakesL = map (\<lambda>g. case mistakes g of None \<Rightarrow> 0 | Some m \<Rightarrow> m) recentGames
            in \<lparr> averageScore = mean scores,
                 scoreTrend = calculateTrend scores,
                 scoreVariance = variance scores,
                 averagePlayTime = mean playTimes,
                 averageMistakes = mean mistakesL,
                 completionRate =
                   jdiv (Num (real (length (filter completed recentGames))))
                        (Num (real (length recentGames))),
                 recentImprovement = calculateRecentImprovement scores,
                 consistency = calculateConsistency scores,
                 difficultyLevel = Num (encodeDifficulty d),
                 gameExperience = calculateGameExperience games gt \<rparr>))"

definition calculatePredictionConfidence :: "scoreFeatures \<Rightarrow> jsnum" where
  "calculatePredictionConfidence features =
     (let factors =
            [ jmul (consistency features) (Num (3 / 10)),
              jmul (jmin (jdiv (gameExperience features) (Num 20)) (Num 1)) (Num (2 / 10)),
              jmul (jsub (Num 1) (jdiv (scoreVariance features) (Num 100))) (Num (3 / 10)),
              jmul (jmin (jdiv (recentImprovement features) (Num 10)) (Num 1)) (Num (2 / 10)) ]
      in jmin (foldl (\<lambda>sum factor. jadd sum factor) (Num 0) factors) (Num 1))"

definition calculatePredictionMargin :: "scoreFeatures \<Rightarrow> jsnum \<Rightarrow> jsnum" where
  "calculatePredictionMargin features horizon =
     (let baseMargin = jmul (scoreVariance features) (Num (1 / 2));
          horizonFactor = jmul (jsqrt horizon) (Num (1 / 10))
      in jmul baseMargin (jadd (Num 1) horizonFactor))"

record scoreFactors =
  baseScore :: jsnum
  trendEffect :: jsnum
  improvementEffect :: jsnum
  consistencyEffect :: jsnum

record scorePrediction =
  prediction :: jsnum
  confidence :: jsnum
  rangeMin :: jsnum
  rangeMax :: jsnum
  factors :: "scoreFactors option"
  horizon :: jsnum

definition calculateScorePrediction :: "scoreFeatures \<Rightarrow> jsnum \<Rightarrow> scorePrediction" where
  "calculateScorePrediction features h =
     (let baseScore' = averageScore features;
          trendEffect' = jmul (scoreTrend features) h;
          improvementEffect' = jmul (recentImprovement features) (jmin h (Num 7));
          consistencyEffect' = jmul (consistency features) (Num 10);
          predictedScore =
            jadd (jadd (jadd baseScore' trendEffect') improvementEffect') consistencyEffect';
          confidence' = calculatePredictionConfidence features;
          margin = calculatePredictionMargin features h
      in \<lparr> prediction = jmax (Num 0) (jround predictedScore),
           confidence = confidence',
           rangeMin = jmax (Num 0) (jround (jsub predictedScore margin)),
           rangeMax = jround (jadd predictedScore margin),
           factors = Some \<lparr> baseScore = baseScore', trendEffect = trendEffect',
                            improvementEffect = improvementEffect',
                            consistencyEffect = consistencyEffect' \<rparr>,
           horizon = h \<rparr>)"

text \<open>The default result: its \<open>factors\<close> object is empty.\<close>

definition getDefaultPrediction :: scorePrediction where
  "getDefaultPrediction =
     \<lparr> prediction = Num 50, confidence = Num (1 / 2), rangeMin = Num 30, rangeMax = Num 70,
       factors = None, horizon = Num 7 \<rparr>"

section \<open>Difficulty recommendation\<close>

text \<open>
  \<open>getMostFrequent\<close> counts the items in an object literal, \<open>counts[item] =
  (counts[item] || 0) + 1\<close>, and reduces \<open>Object.keys(counts)\<close> with
  \<open>counts[a] > counts[b] ? a : b\<close>. Three things of the object matter:
  \<^item> \<open>Object.keys\<close> lists the keys that are array indices (the decimal numerals of 0 to
    \<open>2^32 - 2\<close>) first, in ascending numeric order, then the other keys in the order of
    their first assignment;
  \<^item> a name that \<open>Object.prototype\<close> defines is read, the first time, as the inherited
    function: \<open>(f || 0) + 1\<close> is then the text of the function followed by \<open>1\<close>, and
    every later occurrence appends another \<open>1\<close>. The texts are as the current engines
    print a built-in function;
  \<^item> an assignment to \<open>__proto__\<close> of a value that is no object is ignored, so that
    name never becomes a key.
  The reduce has no initial value, so it throws a TypeError when there is no key.
\<close>

definition inheritedText :: "string \<Rightarrow> string option" where
  "inheritedText name =
     map_of
       [ (''constructor'', ''function Object() { [native code] }''),
         (''__defineGetter__'', ''function __defineGetter__() { [native code] }''),
         (''__defineSetter__'', ''function __defineSetter__() { [native code] }''),
         (''hasOwnProperty'', ''function hasOwnProperty() { [native code] }''),
         (''__lookupGetter__'', ''function __lookupGetter__() { [native code] }''),
         (''__lookupSetter__'', ''function __lookupSetter__() { [native code] }''),
         (''isPrototypeOf'', ''function isPrototypeOf() { [native code] }''),
         (''propertyIsEnumerable'', ''function propertyIsEnumerable() { [native code] }''),
         (''toString'', ''function toString() { [native code] }''),
         (''valueOf'', ''function valueOf() { [native code] }''),
         (''toLocaleString'', ''function toLocaleString() { [native code] }'') ] name"

datatype countVal = Count nat | CountText string

fun setCount :: "string \<Rightarrow> countVal \<Rightarrow> (string \<times> countVal) list \<Rightarrow> (string \<times> countVal) list" where
  "setCount k v [] = [(k, v)]"
| "setCount k v ((k', v') # al) =
     (if k' = k then (k, v) # al else (k', v') # setCount k v al)"

definition countItem :: "(string \<times> countVal) list \<Rightarrow> string \<Rightarrow> (string \<times> countVal) list" where
  "countItem counts item =
     (case map_of counts item of
        Some (Count n) \<Rightarrow> setCount item (Count (n + 1)) counts
      | Some (CountText t) \<Rightarrow> setCount item (CountText (t @ ''1'')) counts
      | None \<Rightarrow>
          if item = ''__proto__'' then counts
          else
            (case inheritedText item of
               Some t \<Rightarrow> setCount item (CountText (t @ ''1'')) counts
             | None \<Rightarrow> setCount item (Count 1) counts))"

definition isDigit :: "char \<Rightarrow> bool" where
  "isDigit c = (48 \<le> (of_char c :: nat) \<and> (of_char c :: nat) \<le> 57)"

definition readNat :: "string \<Rightarrow> nat" where
  "readNat s = foldl (\<lambda>n c. 10 * n + ((of_char c :: nat) - 48)) 0 s"

definition isArrayIndex :: "string \<Rightarrow> bool" where
  "isArrayIndex s =
     (s \<noteq> [] \<and> list_all isDigit s \<and> (s = ''0'' \<or> hd s \<noteq> CHR ''0'') \<and>
      readNat s \<le> 4294967294)"

definition objectKeys :: "(string \<times> countVal) list \<Rightarrow> string list" where
  "objectKeys counts =
     (let ks = map fst counts
      in sort_key readNat (filter isArrayIndex ks) @ filter (\<lambda>k. \<not> isArrayIndex k) ks)"

text \<open>
  \<open>x > y\<close> on two counts: numbers compare as numbers, two texts compare by their code
  units, and a text against a number compares as NaN, which is false.
\<close>

fun textLess :: "string \<Rightarrow> string \<Rightarrow> bool" where
  "textLess [] [] = False"
| "textLess [] (y # ys) = True"
| "textLess (x # xs) [] = False"
| "textLess (x # xs) (y # ys) =
     (if x = y then textLess xs ys else (of_char x :: nat) < of_char y)"

fun countGreater :: "countVal option \<Rightarrow> countVal option \<Rightarrow> bool" where
  "countGreater (Some (Count a)) (Some (Count b)) = (b < a)"
| "countGreater (Some (CountText s)) (Some (CountText t)) = textLess t s"
| "countGreater x y = False"

definition getMostFrequent :: "string list \<Rightarrow> error + string" where
  "getMostFrequent array =
     (let counts = foldl countItem [] array
      in case objectKeys counts of
           [] \<Rightarrow> Inl TypeError
         | k # ks \<Rightarrow>
             Inr (foldl (\<lambda>a b. if countGreater (map_of counts a) (map_of counts b)
                                 then a else b) k ks))"

definition calculateImprovementRate :: "real list \<Rightarrow> jsnum" where
  "calculateImprovementRate array =
     (if length array < 5 then Num 0
      else
        (let recent = sliceLast 3 array;
             older = sliceFromTo 6 3 array
         in if length older = 0 then Num 0
            else jdiv (jsub (mean recent) (mean older)) (jmax (mean older) (Num 1))))"

definition calculateChallengePreference :: "GameRecord list \<Rightarrow> jsnum" where
  "calculateChallengePreference games =
     jdiv (mean (map (\<lambda>g. encodeDifficulty (difficulty g)) games)) (Num 4)"

definition calculateFrustrationLevel :: "GameRecord list \<Rightarrow> jsnum" where
  "calculateFrustrationLevel games =
     (let incompleteGames = filter (\<lambda>g. \<not> completed g) games;
          lowScores = filter (\<lambda>g. score g < 30) games
      in jdiv (Num (real (length incompleteGames + length lowScores)))
              (Num (real (length games))))"

record difficultyFeatures =
  averageScore_d :: jsnum
  scoreConsistency :: jsnum
  preferredDifficulty :: string
  improvementRate :: jsnum
  challengePreference :: jsnum
  frustrationLevel :: jsnum

definition getDefaultDifficultyFeatures :: difficultyFeatures where
  "getDefaultDifficultyFeatures =
     \<lparr> averageScore_d = Num 50, scoreConsistency = Num (1 / 2),
       preferredDifficulty = ''medium'', improvementRate = Num 0,
       challengePreference = Num (1 / 2), frustrationLevel = Num (3 / 10) \<rparr>"

definition extractDifficultyFeatures :: "GameRecord list \<Rightarrow> string \<Rightarrow> error + difficultyFeatures" where
  "extractDifficultyFeatures games gt =
     (let gameHistory = filter (\<lambda>g. gameType g = gt) games
      in if length gameHistory = 0 then Inr getDefaultDifficultyFeatures
         else
           (let recentGames = sliceLast 10 gameHistory;
                scores = map score recentGames;
                difficulties = map difficulty recentGames
            in case getMostFrequent difficulties of
                 Inl e \<Rightarrow> Inl e
               | Inr preferred \<Rightarrow>
                   Inr \<lparr> averageScore_d = mean scores,
                         scoreConsistency = calculateConsistency scores,
                         preferredDifficulty = preferred,
                         improvementRate = calculateImprovementRate scores,
                         challengePreference = calculateChallengePreference recentGames,
                         frustrationLevel = calculateFrustrationLevel recentGames \<rparr>))"

text \<open>
  The three reasoning sentences of \<open>generateDifficultyReasoning\<close> (Japanese text in the
  source): try something harder, start from an easier level, keep the current level.
\<close>

datatype reasoningText = TryHarder | StartEasier | KeepLevel

definition generateDifficultyReasoning :: "difficultyFeatures \<Rightarrow> reasoningText" where
  "generateDifficultyReasoning features =
     (if jgt (averageScore_d features) (Num 80) then TryHarder
      else if jlt (averageScore_d features) (Num 40) then StartEasier
      else KeepLevel)"

record difficultyRecommendation =
  recommended :: string
  confidence_d :: jsnum
  reasoning :: "reasoningText option"

definition calculateDifficultyRecommendation :: "difficultyFeatures \<Rightarrow> difficultyRecommendation" where
  "calculateDifficultyRecommendation features =
     (let score' = averageScore_d features;
          consistency' = scoreConsistency features;
          improvement = improvementRate features;
          (recommendedDifficulty, confidence') =
            (if jgt score' (Num 80) \<and> jgt consistency' (Num (8 / 10)) \<and> jgt improvement (Num 0)
             then (''hard'', Num (9 / 10))
             else if jgt score' (Num 60) \<and> jgt consistency' (Num (6 / 10))
             then (''medium'', Num (7 / 10))
             else if jlt score' (Num 40) \<or> jlt consistency' (Num (4 / 10))
             then (''easy'', Num (8 / 10))
             else (''medium'', Num (5 / 10)))
      in \<lparr> recommended = recommendedDifficulty, confidence_d = confidence',
           reasoning = Some (generateDifficultyReasoning features) \<rparr>)"

section \<open>Sessions\<close>

record session =
  games_s :: "GameRecord list"
  duration :: nat
  startTime :: int
  endTime :: int

definition mkSession :: "GameRecord list \<Rightarrow> session" where
  "mkSession currentSession =
     \<lparr> games_s = currentSession, duration = length currentSession,
       startTime = timestamp (hd currentSession), endTime = timestamp (last currentSession) \<rparr>"

text \<open>
  One turn of the \<open>forEach\<close> of \<open>groupIntoSessions\<close>; the state is the pair
  (sessions, currentSession). \<open>mkSession\<close> is only applied to a non-empty session.
\<close>

definition sessionStep :: "session list \<times> GameRecord list \<Rightarrow> GameRecord \<Rightarrow> session list \<times> GameRecord list" where
  "sessionStep st game =
     (case st of (sessions, currentSession) \<Rightarrow>
        if length currentSession = 0 then (sessions, [game])
        else
          (let lastGame = last currentSession;
               timeDiff = timestamp game - timestamp lastGame
           in if timeDiff < 30 * 60 * 1000 then (sessions, currentSession @ [game])
              else (sessions @ [mkSession currentSession], [game])))"

text \<open>
  \<open>groupIntoSessions\<close> first sorts its argument in place, \<open>games.sort((a, b) =>
  a.timestamp - b.timestamp)\<close>: a stable sort by ascending timestamp. The model returns
  the sessions together with the array as the call leaves it.
\<close>

definition groupIntoSessions :: "GameRecord list \<Rightarrow> session list \<times> GameRecord list" where
  "groupIntoSessions games =
     (let games' = sort_key timestamp games;
          (sessions, currentSession) = foldl sessionStep ([], []) games'
      in (if length currentSession > 0 then sessions @ [mkSession currentSession] else sessions,
          games'))"

record sessionPatterns =
  durations :: "real list"
  frequency :: jsnum

definition analyzeSessionPatterns :: "GameRecord list \<Rightarrow> sessionPatterns \<times> GameRecord list" where
  "analyzeSessionPatterns games =
     (case groupIntoSessions games of (sessions, games') \<Rightarrow>
        (\<lparr> durations = map (\<lambda>s. real (duration s)) sessions,
           frequency = jdiv (Num (real (length sessions))) (Num 7) \<rparr>, games'))"

section \<open>Churn prediction\<close>

definition calculateCompletionRate :: "GameRecord list \<Rightarrow> jsnum" where
  "calculateCompletionRate games =
     jdiv (Num (real (length (filter completed games)))) (Num (real (length games)))"

definition calculateActivityDecline :: "int \<Rightarrow> GameRecord list \<Rightarrow> jsnum" where
  "calculateActivityDecline now games =
     (let recent = length (filter (\<lambda>g. timestamp g > now - 7 * 24 * 60 * 60 * 1000) games);
          older = length (filter (\<lambda>g. timestamp g > now - 14 * 24 * 60 * 60 * 1000 \<and>
                                       timestamp g \<le> now - 7 * 24 * 60 * 60 * 1000) games)
      in jdiv (Num (real older - real recent)) (jmax (Num (real older)) (Num 1)))"

definition calculateSatisfactionMetrics :: "GameRecord list \<Rightarrow> jsnum" where
  "calculateSatisfactionMetrics games =
     (let scores = map score games;
          completionRate' = calculateCompletionRate games
      in jadd (jmul (jdiv (mean scores) (Num 100)) (Num (7 / 10)))
              (jmul completionRate' (Num (3 / 10))))"

text \<open>
  \<open>calculateEngagementMetrics\<close> groups a filtered copy of the games into sessions, so
  the sort leaves \<open>userData.games\<close> as it is.
\<close>

definition calculateEngagementMetrics :: "int \<Rightarrow> GameRecord list \<Rightarrow> jsnum" where
  "calculateEngagementMetrics now games =
     (let recentActivity = filter (\<lambda>g. timestamp g > now - 7 * 24 * 60 * 60 * 1000) games;
          dailyFrequency = jdiv (Num (real (length recentActivity))) (Num 7);
          sessionDuration = durations (fst (analyzeSessionPatterns recentActivity))
      in jadd (jmul (jmin (jdiv dailyFrequency (Num 3)) (Num 1)) (Num (6 / 10)))
              (jmul (jmin (jdiv (mean sessionDuration) (Num 5)) (Num 1)) (Num (4 / 10))))"

definition calculateScoreDecline :: "GameRecord list \<Rightarrow> jsnum" where
  "calculateScoreDecline games =
     (if length games < 10 then Num 0
      else
        (let recent = map score (sliceLast 5 games);
             older = map score (sliceFromTo 10 5 games)
         in jsub (mean older) (mean recent)))"

text \<open>\<open>calculateSessionDropoff\<close> groups \<open>userData.games\<close> itself: the array comes back sorted.\<close>

definition calculateSessionDropoff :: "GameRecord list \<Rightarrow> jsnum \<times> GameRecord list" where
  "calculateSessionDropoff games =
     (case groupIntoSessions games of (sessions, games') \<Rightarrow>
        (if length sessions < 2 then Num 0
         else
           (let recentSessions = sliceLast 3 sessions;
                olderSessions = sliceFromTo 6 3 sessions
            in if length olderSessions = 0 then Num 0
               else
                 (let recentAvg = mean (map (\<lambda>s. real (duration s)) recentSessions);
                      olderAvg = mean (map (\<lambda>s. real (duration s)) olderSessions)
                  in jdiv (jsub olderAvg recentAvg) (jmax olderAvg (Num 1)))),
         games'))"

definition calculateGameAbandonment :: "GameRecord list \<Rightarrow> jsnum" where
  "calculateGameAbandonment games =
     jdiv (Num (real (length (filter (\<lambda>g. \<not> completed g) games)))) (Num (real (length games)))"

definition calculateDaysSinceLastActivity :: "int \<Rightarrow> GameRecord list \<Rightarrow> jsnum" where
  "calculateDaysSinceLastActivity now games =
     (if length games = 0 then Num 999
      else
        (let lastGame = last games;
             daysDiff = jdiv (Num (real_of_int (now - timestamp lastGame)))
                             (Num (24 * 60 * 60 * 1000))
         in jfloor daysDiff))"

record churnFeatures =
  activityDecline :: jsnum
  averageScore_c :: jsnum
  scoreDecline :: jsnum
  sessionDropoff :: jsnum
  gameAbandonment :: jsnum
  satisfactionScore :: jsnum
  engagementScore :: jsnum
  daysSinceLastActivity :: jsnum

text \<open>
  The fields of the returned object are evaluated in the order written:
  \<open>calculateSessionDropoff\<close> sorts \<open>userData.games\<close> before
  \<open>calculateDaysSinceLastActivity\<close> reads its last element, while \<open>recentGames\<close> is a
  copy filtered before the sort. The second component is \<open>userData.games\<close> after the call.
\<close>

definition extractChurnFeatures :: "int \<Rightarrow> GameRecord list \<Rightarrow> churnFeatures \<times> GameRecord list" where
  "extractChurnFeatures now games =
     (let recentGames = filter (\<lambda>g. timestamp g > now - 30 * 24 * 60 * 60 * 1000) games;
          activityDecline' = calculateActivityDecline now games;
          satisfactionMetrics = calculateSatisfactionMetrics recentGames;
          engagementMetrics = calculateEngagementMetrics now games;
          (sessionDropoff', games') = calculateSessionDropoff games
      in (\<lparr> activityDecline = activityDecline',
            averageScore_c = mean (map score recentGames),
            scoreDecline = calculateScoreDecline recentGames,
            sessionDropoff = sessionDropoff',
            gameAbandonment = calculateGameAbandonment recentGames,
            satisfactionScore = satisfactionMetrics,
            engagementScore = engagementMetrics,
            daysSinceLastActivity = calculateDaysSinceLastActivity now games' \<rparr>,
          games'))"

definition calculateChurnConfidence :: "churnFeatures \<Rightarrow> jsnum" where
  "calculateChurnConfidence features =
     (let factors =
            [ jmul (jmin (jdiv (daysSinceLastActivity features) (Num 30)) (Num 1)) (Num (3 / 10)),
              jmul (jmin (activityDecline features) (Num 1)) (Num (3 / 10)),
              jmul (jmin (jdiv (scoreDecline features) (Num 50)) (Num 1)) (Num (2 / 10)),
              jmul (jmin (gameAbandonment features) (Num 1)) (Num (2 / 10)) ]
      in jmin (foldl (\<lambda>sum factor. jadd sum factor) (Num 0) factors) (Num 1))"

definition classifyRiskLevel :: "jsnum \<Rightarrow> string" where
  "classifyRiskLevel p =
     (if jlt p (Num (3 / 10)) then ''low''
      else if jlt p (Num (6 / 10)) then ''medium''
      else ''high'')"

text \<open>
  The three pieces of advice of \<open>generateChurnRecommendations\<close> (Japanese text in the
  source): try a new game, practise at a lower difficulty, play regularly.
\<close>

datatype churnAdvice = TryNewGame | LowerDifficulty | PlayRegularly

definition generateChurnRecommendations :: "churnFeatures \<Rightarrow> churnAdvice list" where
  "generateChurnRecommendations features =
     (if jgt (activityDecline features) (Num (5 / 10)) then [TryNewGame] else []) @
     (if jgt (scoreDecline features) (Num 20) then [LowerDifficulty] else []) @
     (if jgt (daysSinceLastActivity features) (Num 7) then [PlayRegularly] else [])"

record churnFactors =
  activityDecline_f :: jsnum
  scoreDecline_f :: jsnum
  sessionDropoff_f :: jsnum
  gameAbandonment_f :: jsnum
  daysSinceLastActivity_f :: jsnum

record churnPrediction =
  probability :: jsnum
  confidence_c :: jsnum
  riskLevel :: string
  factors_c :: "churnFactors option"
  recommendations :: "churnAdvice list"
  horizon_c :: jsnum

text \<open>
  The locals \<open>riskScore\<close> and \<open>churnProbability\<close> of \<open>calculateChurnPrediction\<close>, as
  functions of the features.
\<close>

definition riskScore :: "churnFeatures \<Rightarrow> jsnum" where
  "riskScore features =
     (let riskFactors =
            [ jmul (activityDecline features) (Num (3 / 10)),
              jmul (scoreDecline features) (Num (2 / 10)),
              jmul (sessionDropoff features) (Num (25 / 100)),
              jmul (gameAbandonment features) (Num (15 / 100)),
              jmul (jsub (Num 30) (daysSinceLastActivity features)) (Num (1 / 10)) ]
      in foldl (\<lambda>sum factor. jadd sum factor) (Num 0) riskFactors)"

definition churnProbability :: "churnFeatures \<Rightarrow> jsnum" where
  "churnProbability features =
     jdiv (Num 1) (jadd (Num 1) (jexp (jneg (riskScore features))))"

definition calculateChurnPrediction :: "churnFeatures \<Rightarrow> jsnum \<Rightarrow> churnPrediction" where
  "calculateChurnPrediction features h =
     (let churnProbability' = churnProbability features;
          confidence' = calculateChurnConfidence features
      in \<lparr> probability = jdiv (jround (jmul churnProbability' (Num 100))) (Num 100),
           confidence_c = confidence',
           riskLevel = classifyRiskLevel churnProbability',
           factors_c = Some \<lparr> activityDecline_f = activityDecline features,
                              scoreDecline_f = scoreDecline features,
                              sessionDropoff_f = sessionDropoff features,
                              gameAbandonment_f = gameAbandonment features,
                              daysSinceLastActivity_f = daysSinceLastActivity features \<rparr>,
           recommendations = generateChurnRecommendations features,
           horizon_c = h \<rparr>)"

definition getDefaultChurnPrediction :: churnPrediction where
  "getDefaultChurnPrediction =
     \<lparr> probability = Num (3 / 10), confidence_c = Num (1 / 2), riskLevel = ''medium'',
       factors_c = None, recommendations = [], horizon_c = Num 30 \<rparr>"

section \<open>Engagement prediction\<close>

text \<open>
  What the engine takes from the page it runs in: the offset of local time from UTC at
  an instant, in milliseconds (for \<open>getDay\<close> and \<open>toDateString\<close>), and the method
  \<open>getDayOfYear\<close> of \<open>Date\<close> objects when the page has defined one. ECMAScript has no
  such method and no file of the repository defines it: there the field is \<open>None\<close>, and
  the call \<open>new Date().getDayOfYear()\<close> throws a TypeError.
\<close>

record host =
  tzOffset :: "int \<Rightarrow> int"
  getDayOfYear :: "(int \<Rightarrow> jsnum) option"

text \<open>
  A \<open>Date\<close> holds a time of at most 8.64e15 milliseconds either side of the epoch; beyond
  that \<open>new Date(ts)\<close> is an Invalid Date, whose \<open>getDay()\<close> is NaN and whose
  \<open>toDateString()\<close> is the one text \<open>Invalid Date\<close> (\<open>None\<close> below).
\<close>

definition validDate :: "int \<Rightarrow> bool" where
  "validDate ts = (- 8640000000000000 \<le> ts \<and> ts \<le> 8640000000000000)"

definition localDay :: "host \<Rightarrow> int \<Rightarrow> int option" where
  "localDay hst ts =
     (if validDate ts then Some ((ts + tzOffset hst ts) div (24 * 60 * 60 * 1000)) else None)"

text \<open>\<open>new Date(ts).getDay()\<close>: 0 is Sunday; the first of January 1970 was a Thursday.\<close>

definition getDay :: "host \<Rightarrow> int \<Rightarrow> nat option" where
  "getDay hst ts =
     (case localDay hst ts of None \<Rightarrow> None | Some d \<Rightarrow> Some (nat ((d + 4) mod 7)))"

text \<open>
  \<open>dailyCounts[day]++\<close>: for the day NaN this sets a property named \<open>NaN\<close> and leaves the
  seven elements as they are.
\<close>

definition calculateDailyActivity :: "host \<Rightarrow> GameRecord list \<Rightarrow> real list" where
  "calculateDailyActivity hst games =
     foldl (\<lambda>dailyCounts game.
              (case getDay hst (timestamp game) of
                 None \<Rightarrow> dailyCounts
               | Some day \<Rightarrow> dailyCounts[day := dailyCounts ! day + 1]))
       (replicate 7 0) games"

definition calculateGameDiversity :: "GameRecord list \<Rightarrow> jsnum" where
  "calculateGameDiversity games =
     jdiv (Num (real (length (remdups (map gameType games))))) (Num 5)"

definition calculateReturnRate :: "host \<Rightarrow> GameRecord list \<Rightarrow> jsnum" where
  "calculateReturnRate hst games =
     (let totalDays = length games;
          uniqueDays = length (remdups (map (\<lambda>g. localDay hst (timestamp g)) games))
      in jdiv (Num (real uniqueDays)) (jmax (Num (real totalDays)) (Num 1)))"

definition calculateSocialEngagement :: "GameRecord list \<Rightarrow> jsnum" where
  "calculateSocialEngagement games = Num (1 / 2)"

definition calculateAchievementRate :: "GameRecord list \<Rightarrow> jsnum" where
  "calculateAchievementRate games = Num (3 / 10)"

record engagementFeatures =
  dailyPlayFrequency :: jsnum
  sessionDuration :: jsnum
  sessionFrequency :: jsnum
  gameDiversity :: jsnum
  completionRate_e :: jsnum
  returnRate :: jsnum
  socialEngagement :: jsnum
  achievementRate :: jsnum

text \<open>The session grouping sorts \<open>recentActivity\<close>, a filtered copy of \<open>userData.games\<close>.\<close>

definition extractEngagementFeatures :: "host \<Rightarrow> int \<Rightarrow> GameRecord list \<Rightarrow> engagementFeatures" where
  "extractEngagementFeatures hst now games =
     (let recentActivity = filter (\<lambda>g. timestamp g > now - 7 * 24 * 60 * 60 * 1000) games;
          dailyActivity = calculateDailyActivity hst recentActivity;
          (sessionPatterns', recentActivity') = analyzeSessionPatterns recentActivity;
          gameDiversity' = calculateGameDiversity recentActivity'
      in \<lparr> dailyPlayFrequency = mean dailyActivity,
           sessionDuration = mean (durations sessionPatterns'),
           sessionFrequency = frequency sessionPatterns',
           gameDiversity = gameDiversity',
           completionRate_e = calculateCompletionRate recentActivity',
           returnRate = calculateReturnRate hst games,
           socialEngagement = calculateSocialEngagement games,
           achievementRate = calculateAchievementRate games \<rparr>)"

definition calculateEngagementTrend :: "engagementFeatures \<Rightarrow> jsnum" where
  "calculateEngagementTrend features = jmul (dailyPlayFrequency features) (Num (1 / 10))"

definition calculateSeasonalEffect :: "host \<Rightarrow> int \<Rightarrow> jsnum \<Rightarrow> error + jsnum" where
  "calculateSeasonalEffect hst now h =
     (case getDayOfYear hst of
        None \<Rightarrow> Inl TypeError
      | Some method \<Rightarrow>
          (let dayOfYear = method now
           in Inr (jmul (jsin (jmul (jmul (jdiv dayOfYear (Num 365)) (Num 2)) (Num pi)))
                        (Num (1 / 10)))))"

definition calculateEngagementConfidence :: "engagementFeatures \<Rightarrow> jsnum" where
  "calculateEngagementConfidence features =
     jadd (jmul (jmin (jdiv (sessionFrequency features) (Num 7)) (Num 1)) (Num (8 / 10)))
          (Num (2 / 10))"

record engagementFactors =
  baseEngagement :: jsnum
  trendEffect_e :: jsnum
  seasonalEffect :: jsnum

record engagementPrediction =
  prediction_e :: jsnum
  confidence_e :: jsnum
  trend :: string
  factors_e :: "engagementFactors option"
  horizon_e :: jsnum

definition calculateEngagementPrediction ::
    "host \<Rightarrow> int \<Rightarrow> engagementFeatures \<Rightarrow> jsnum \<Rightarrow> error + engagementPrediction" where
  "calculateEngagementPrediction hst now features h =
     (let baseEngagement' = dailyPlayFrequency features;
          trendEffect' = calculateEngagementTrend features
      in case calculateSeasonalEffect hst now h of
           Inl e \<Rightarrow> Inl e
         | Inr seasonalEffect' \<Rightarrow>
             (let predictedEngagement = jadd (jadd baseEngagement' trendEffect') seasonalEffect';
                  confidence' = calculateEngagementConfidence features
              in Inr \<lparr> prediction_e =
                         jmax (Num 0) (jdiv (jround (jmul predictedEngagement (Num 100))) (Num 100)),
                       confidence_e = confidence',
                       trend = (if jgt trendEffect' (Num 0) then ''increasing'' else ''decreasing''),
                       factors_e = Some \<lparr> baseEngagement = baseEngagement',
                                          trendEffect_e = trendEffect',
                                          seasonalEffect = seasonalEffect' \<rparr>,
                       horizon_e = h \<rparr>))"

definition getDefaultEngagementPrediction :: engagementPrediction where
  "getDefaultEngagementPrediction =
     \<lparr> prediction_e = Num (1 / 2), confidence_e = Num (1 / 2), trend = ''stable'',
       factors_e = None, horizon_e = Num 7 \<rparr>"

section \<open>Game recommendation\<close>

definition gameTypes :: "string list" where
  "gameTypes = [''memory_game'', ''reaction_game'', ''calculation_game'', ''pattern_memory'',
                ''puzzle_game'']"

text \<open>The three tables are objects keyed by game type, filled in the order of \<open>gameTypes\<close>.\<close>

definition analyzeGamePreferences :: "GameRecord list \<Rightarrow> (string \<times> jsnum) list" where
  "analyzeGamePreferences games =
     map (\<lambda>gt. (gt, jdiv (Num (real (length (filter (\<lambda>g. gameType g = gt) games))))
                         (Num (real (length games))))) gameTypes"

definition analyzePerformanceByGame :: "GameRecord list \<Rightarrow> (string \<times> jsnum) list" where
  "analyzePerformanceByGame games =
     map (\<lambda>gt. (let gameScores = map score (filter (\<lambda>g. gameType g = gt) games)
                in (gt, if length gameScores > 0 then jdiv (mean gameScores) (Num 100) else Num 0)))
       gameTypes"

definition analyzeEngagementByGame :: "GameRecord list \<Rightarrow> (string \<times> jsnum) list" where
  "analyzeEngagementByGame games =
     map (\<lambda>gt. (gt, jdiv (Num (real (length (filter (\<lambda>g. gameType g = gt) games))))
                         (Num (real (length games))))) gameTypes"

definition calculateExplorationTendency :: "GameRecord list \<Rightarrow> jsnum" where
  "calculateExplorationTendency games =
     jdiv (Num (real (length (remdups (map gameType games))))) (Num 5)"

definition calculateOverallSkillLevel :: "GameRecord list \<Rightarrow> jsnum" where
  "calculateOverallSkillLevel games = jdiv (mean (map score games)) (Num 100)"

definition calculateTimeAvailability :: "int \<Rightarrow> GameRecord list \<Rightarrow> jsnum" where
  "calculateTimeAvailability now games =
     (let recentGames = filter (\<lambda>g. timestamp g > now - 7 * 24 * 60 * 60 * 1000) games;
          totalPlayTime = foldl (\<lambda>sum g. sum + playTime g) 0 recentGames
      in jmin (jdiv (Num totalPlayTime) (Num (7 * 60 * 60))) (Num 1))"

record gameRecommendationFeatures =
  gamePreferences :: "(string \<times> jsnum) list"
  performanceByGame :: "(string \<times> jsnum) list"
  engagementByGame :: "(string \<times> jsnum) list"
  explorationTendency :: jsnum
  skillLevel :: jsnum
  timeAvailability :: jsnum

definition extractGameRecommendationFeatures :: "int \<Rightarrow> GameRecord list \<Rightarrow> gameRecommendationFeatures" where
  "extractGameRecommendationFeatures now games =
     \<lparr> gamePreferences = analyzeGamePreferences games,
       performanceByGame = analyzePerformanceByGame games,
       engagementByGame = analyzeEngagementByGame games,
       explorationTendency = calculateExplorationTendency games,
       skillLevel = calculateOverallSkillLevel games,
       timeAvailability = calculateTimeAvailability now games \<rparr>"

text \<open>\<open>table[gameType] || 0\<close>: 0 for a missing key, for 0 and for NaN.\<close>

definition lookupOr0 :: "(string \<times> jsnum) list \<Rightarrow> string \<Rightarrow> jsnum" where
  "lookupOr0 table gt = (case map_of table gt of None \<Rightarrow> Num 0 | Some v \<Rightarrow> jor v (Num 0))"

record gameScore =
  gameType_g :: string
  score_g :: jsnum

text \<open>
  \<open>gameScores.sort((a, b) => b.score - a.score)\<close>: a stable sort, modelled as the
  insertion sort that keeps an element in front of the later ones unless the comparator
  is positive.
\<close>

fun insertByScore :: "gameScore \<Rightarrow> gameScore list \<Rightarrow> gameScore list" where
  "insertByScore g [] = [g]"
| "insertByScore g (x # xs) =
     (if jgt (jsub (score_g x) (score_g g)) (Num 0) then x # insertByScore g xs
      else g # x # xs)"

definition sortByScore :: "gameScore list \<Rightarrow> gameScore list" where
  "sortByScore gs = foldr insertByScore gs []"

text \<open>The display names of \<open>getGameName\<close> (Japanese text in the source), one per known
  game type; an unknown game type is its own name.\<close>

datatype gameLabel =
  MemoryGameLabel | ReactionGameLabel | CalculationGameLabel | PatternMemoryLabel
  | PuzzleGameLabel | OwnName string

definition getGameName :: "string \<Rightarrow> gameLabel" where
  "getGameName gt =
     (if gt = ''memory_game'' then MemoryGameLabel
      else if gt = ''reaction_game'' then ReactionGameLabel
      else if gt = ''calculation_game'' then CalculationGameLabel
      else if gt = ''pattern_memory'' then PatternMemoryLabel
      else if gt = ''puzzle_game'' then PuzzleGameLabel
      else OwnName gt)"

definition calculateGameRecommendationConfidence :: "jsnum \<Rightarrow> jsnum" where
  "calculateGameRecommendationConfidence s = jmin (jmul s (Num (12 / 10))) (Num 1)"

record gameRecommendation =
  rank :: nat
  gameType_r :: string
  gameName :: gameLabel
  score_r :: jsnum
  confidence_r :: jsnum

definition calculateGameRecommendations :: "gameRecommendationFeatures \<Rightarrow> nat \<Rightarrow> gameRecommendation list" where
  "calculateGameRecommendations features count' =
     (let gameScores =
            map (\<lambda>gt.
                   (let performance = lookupOr0 (performanceByGame features) gt;
                        engagement = lookupOr0 (engagementByGame features) gt;
                        preference = lookupOr0 (gamePreferences features) gt
                    in \<lparr> gameType_g = gt,
                         score_g = jadd (jadd (jmul performance (Num (4 / 10)))
                                              (jmul engagement (Num (3 / 10))))
                                        (jmul preference (Num (3 / 10))) \<rparr>))
              gameTypes;
          sorted = sortByScore gameScores
      in map (\<lambda>(game, index).
                \<lparr> rank = index + 1, gameType_r = gameType_g game,
                  gameName = getGameName (gameType_g game), score_r = score_g game,
                  confidence_r = calculateGameRecommendationConfidence (score_g game) \<rparr>)
           (zip (take count' sorted) [0..<count']))"

definition getDefaultGameRecommendations :: "nat \<Rightarrow> gameRecommendation list" where
  "getDefaultGameRecommendations count' =
     (let defaultGames =
            [ (''memory_game'', MemoryGameLabel), (''reaction_game'', ReactionGameLabel),
              (''calculation_game'', CalculationGameLabel) ]
      in map (\<lambda>((gt, name), index).
                \<lparr> rank = index + 1, gameType_r = gt, gameName = name,
                  score_r = Num (1 / 2), confidence_r = Num (1 / 2) \<rparr>)
           (zip (take count' defaultGames) [0..<count']))"

section \<open>The engine and its public methods\<close>

text \<open>
  \<open>getUserData\<close> fetches \<open>/api/users/<userId>/data\<close> and throws when the request fails
  or the response is not ok. The server is modelled by the answer it gives for each user
  (the \<open>games\<close> of the user data, or the failure) and a count of the requests it has
  received, which each call of \<open>getUserData\<close> increases. A body that is not JSON, or
  has no array \<open>games\<close>, makes the same \<open>try\<close> block throw and counts as a failure.
\<close>

record server =
  userData :: "string \<Rightarrow> error + GameRecord list"
  requests :: nat

definition getUserData :: "server \<Rightarrow> string \<Rightarrow> (error + GameRecord list) \<times> server" where
  "getUserData srv userId = (userData srv userId, srv\<lparr>requests := requests srv + 1\<rparr>)"

datatype cached =
  ScoreP scorePrediction | EngagementP engagementPrediction | ChurnP churnPrediction

text \<open>
  The mutable fields of a \<open>PredictionEngine\<close>: the cache (a \<open>Map\<close> from key strings to
  results) and \<open>lastUpdate\<close>. The constructor sets \<open>lastUpdate\<close> to 0; no method assigns
  it afterwards. \<open>config.updateInterval\<close> is the constant 24 hours in milliseconds.
\<close>

record engine =
  cache :: "string \<rightharpoonup> cached"
  lastUpdate :: int

definition newEngine :: engine where
  "newEngine = \<lparr> cache = Map.empty, lastUpdate = 0 \<rparr>"

definition updateInterval :: int where
  "updateInterval = 24 * 60 * 60 * 1000"

text \<open>The decimal digits of a horizon, as the template literal of the cache key prints it.\<close>

fun showNat :: "nat \<Rightarrow> string" where
  "showNat n =
     (if n < 10 then [''0123456789'' ! n]
      else showNat (n div 10) @ [''0123456789'' ! (n mod 10)])"

declare showNat.simps [simp del]

text \<open>The local \<open>cacheKey\<close> of the three caching methods.\<close>

definition scoreKey :: "string \<Rightarrow> string \<Rightarrow> string \<Rightarrow> nat \<Rightarrow> string" where
  "scoreKey userId gt d h = ''score_'' @ userId @ ''_'' @ gt @ ''_'' @ d @ ''_'' @ showNat h"

definition engagementKey :: "string \<Rightarrow> nat \<Rightarrow> string" where
  "engagementKey userId h = ''engagement_'' @ userId @ ''_'' @ showNat h"

definition churnKey :: "string \<Rightarrow> nat \<Rightarrow> string" where
  "churnKey userId h = ''churn_'' @ userId @ ''_'' @ showNat h"

text \<open>
  Each public method is an \<open>async\<close> function: it returns a result (\<open>Inr\<close>) or rejects
  with an error (\<open>Inl\<close>). The body after the cache check is a \<open>try\<close> block whose \<open>catch\<close>
  returns the default result of the method. \<open>now\<close> is the value of \<open>Date.now()\<close> during
  the call; the horizon is a number of days.
\<close>

definition predictScore ::
    "server \<Rightarrow> int \<Rightarrow> engine \<Rightarrow> string \<Rightarrow> string \<Rightarrow> string \<Rightarrow> nat
      \<Rightarrow> error + (cached \<times> engine \<times> server)" where
  "predictScore srv now eng userId gt d h =
     (let cacheKey = scoreKey userId gt d h
      in if cache eng cacheKey \<noteq> None \<and> now - lastUpdate eng < updateInterval
         then Inr (the (cache eng cacheKey), eng, srv)
         else
           (case getUserData srv userId of
              (Inl err, srv') \<Rightarrow> Inr (ScoreP getDefaultPrediction, eng, srv')
            | (Inr games, srv') \<Rightarrow>
                (let features = extractScoreFeatures now games gt d;
                     prediction' = calculateScorePrediction features (Num (real h))
                 in Inr (ScoreP prediction',
                         eng\<lparr>cache := (cache eng)(cacheKey \<mapsto> ScoreP prediction')\<rparr>,
                         srv'))))"

definition predictEngagement ::
    "host \<Rightarrow> server \<Rightarrow> int \<Rightarrow> engine \<Rightarrow> string \<Rightarrow> nat
      \<Rightarrow> error + (cached \<times> engine \<times> server)" where
  "predictEngagement hst srv now eng userId h =
     (let cacheKey = engagementKey userId h
      in if cache eng cacheKey \<noteq> None \<and> now - lastUpdate eng < updateInterval
         then Inr (the (cache eng cacheKey), eng, srv)
         else
           (case getUserData srv userId of
              (Inl err, srv') \<Rightarrow> Inr (EngagementP getDefaultEngagementPrediction, eng, srv')
            | (Inr games, srv') \<Rightarrow>
                (let features = extractEngagementFeatures hst now games
                 in case calculateEngagementPrediction hst now features (Num (real h)) of
                      Inl err \<Rightarrow> Inr (EngagementP getDefaultEngagementPrediction, eng, srv')
                    | Inr prediction' \<Rightarrow>
                        Inr (EngagementP prediction',
                             eng\<lparr>cache := (cache eng)(cacheKey \<mapsto> EngagementP prediction')\<rparr>,
                             srv'))))"

definition predictChurnRisk ::
    "server \<Rightarrow> int \<Rightarrow> engine \<Rightarrow> string \<Rightarrow> nat \<Rightarrow> error + (cached \<times> engine \<times> server)" where
  "predictChurnRisk srv now eng userId h =
     (let cacheKey = churnKey userId h
      in if cache eng cacheKey \<noteq> None \<and> now - lastUpdate eng < updateInterval
         then Inr (the (cache eng cacheKey), eng, srv)
         else
           (case getUserData srv userId of
              (Inl err, srv') \<Rightarrow> Inr (ChurnP getDefaultChurnPrediction, eng, srv')
            | (Inr games, srv') \<Rightarrow>
                (let features = fst (extractChurnFeatures now games);
                     prediction' = calculateChurnPrediction features (Num (real h))
                 in Inr (ChurnP prediction',
                         eng\<lparr>cache := (cache eng)(cacheKey \<mapsto> ChurnP prediction')\<rparr>,
                         srv'))))"

definition recommendDifficulty ::
    "server \<Rightarrow> string \<Rightarrow> string \<Rightarrow> error + (difficultyRecommendation \<times> server)" where
  "recommendDifficulty srv userId gt =
     (let fallback = \<lparr> recommended = ''medium'', confidence_d = Num (1 / 2), reasoning = None \<rparr>
      in case getUserData srv userId of
           (Inl err, srv') \<Rightarrow> Inr (fallback, srv')
         | (Inr games, srv') \<Rightarrow>
             (case extractDifficultyFeatures games gt of
                Inl err \<Rightarrow> Inr (fallback, srv')
              | Inr features \<Rightarrow> Inr (calculateDifficultyRecommendation features, srv')))"

definition recommendGames ::
    "server \<Rightarrow> int \<Rightarrow> string \<Rightarrow> nat \<Rightarrow> error + (gameRecommendation list \<times> server)" where
  "recommendGames srv now userId count' =
     (case getUserData srv userId of
        (Inl err, srv') \<Rightarrow> Inr (getDefaultGameRecommendations count', srv')
      | (Inr games, srv') \<Rightarrow>
          (let features = extractGameRecommendationFeatures now games
           in Inr (calculateGameRecommendations features count', srv')))"

section \<open>The rounded computations\<close>

text \<open>
  The definitions above compute in exact arithmetic. The two computations whose result
  passes through \<open>Math.round\<close>, the score prediction and the churn probability, follow
  once more with the rounding of every operation written out, so that what is proved of
  them does not depend on a result sitting just above or just below a half.

  The arithmetic unit is a parameter: \<open>fl\<close> rounds the exact result of an operation, or
  a decimal literal, to a number (it yields an infinity when the result overflows);
  \<open>msqrt\<close> and \<open>mexp\<close> are \<open>Math.sqrt\<close> and \<open>Math.exp\<close> on a finite argument. The
  integers written in the source (1, 7, 10, 20, 30, 100) are numbers as they stand.
\<close>

record fpu =
  fl :: "real \<Rightarrow> jsnum"
  msqrt :: "real \<Rightarrow> real"
  mexp :: "real \<Rightarrow> jsnum"

text \<open>
  What the proofs use of the unit, and what the binary64 arithmetic of every engine
  provides: rounding is monotone and never NaN, the numbers 0, 1 and 100 are not changed
  by it, a square root is not negative, and \<open>Math.exp\<close> is a non-negative number or
  \<open>Infinity\<close>.
\<close>

definition rounding :: "fpu \<Rightarrow> bool" where
  "rounding fp =
     ((\<forall>x y. x \<le> y \<longrightarrow> jle (fl fp x) (fl fp y)) \<and>
      fl fp 0 = Num 0 \<and> fl fp 1 = Num 1 \<and> fl fp 100 = Num 100 \<and>
      (\<forall>x. 0 \<le> x \<longrightarrow> 0 \<le> msqrt fp x) \<and>
      (\<forall>x. jle (Num 0) (mexp fp x)))"

text \<open>The unit of the exact arithmetic used above.\<close>

definition exactFpu :: fpu where
  "exactFpu = \<lparr> fl = Num, msqrt = sqrt, mexp = (\<lambda>x. Num (exp x)) \<rparr>"

definition rnd :: "fpu \<Rightarrow> jsnum \<Rightarrow> jsnum" where
  "rnd fp x = (case x of Num a \<Rightarrow> fl fp a | PInf \<Rightarrow> PInf | NInf \<Rightarrow> NInf | NaN \<Rightarrow> NaN)"

definition fadd :: "fpu \<Rightarrow> jsnum \<Rightarrow> jsnum \<Rightarrow> jsnum" where
  "fadd fp x y = rnd fp (jadd x y)"

definition fsub :: "fpu \<Rightarrow> jsnum \<Rightarrow> jsnum \<Rightarrow> jsnum" where
  "fsub fp x y = rnd fp (jsub x y)"

definition fmul :: "fpu \<Rightarrow> jsnum \<Rightarrow> jsnum \<Rightarrow> jsnum" where
  "fmul fp x y = rnd fp (jmul x y)"

definition fdiv :: "fpu \<Rightarrow> jsnum \<Rightarrow> jsnum \<Rightarrow> jsnum" where
  "fdiv fp x y = rnd fp (jdiv x y)"

definition fsqrt :: "fpu \<Rightarrow> jsnum \<Rightarrow> jsnum" where
  "fsqrt fp x =
     (case x of Num a \<Rightarrow> (if a < 0 then NaN else Num (msqrt fp a))
      | PInf \<Rightarrow> PInf | NInf \<Rightarrow> NaN | NaN \<Rightarrow> NaN)"

definition fexp :: "fpu \<Rightarrow> jsnum \<Rightarrow> jsnum" where
  "fexp fp x =
     (case x of Num a \<Rightarrow> mexp fp a | PInf \<Rightarrow> PInf | NInf \<Rightarrow> Num 0 | NaN \<Rightarrow> NaN)"

definition calculatePredictionConfidence_fp :: "fpu \<Rightarrow> scoreFeatures \<Rightarrow> jsnum" where
  "calculatePredictionConfidence_fp fp features =
     (let factors =
            [ fmul fp (consistency features) (fl fp (3 / 10)),
              fmul fp (jmin (fdiv fp (gameExperience features) (Num 20)) (Num 1))
                      (fl fp (2 / 10)),
              fmul fp (fsub fp (Num 1) (fdiv fp (scoreVariance features) (Num 100)))
                      (fl fp (3 / 10)),
              fmul fp (jmin (fdiv fp (recentImprovement features) (Num 10)) (Num 1))
                      (fl fp (2 / 10)) ]
      in jmin (foldl (\<lambda>sum factor. fadd fp sum factor) (Num 0) factors) (Num 1))"

definition calculatePredictionMargin_fp :: "fpu \<Rightarrow> scoreFeatures \<Rightarrow> jsnum \<Rightarrow> jsnum" where
  "calculatePredictionMargin_fp fp features h =
     (let baseMargin = fmul fp (scoreVariance features) (fl fp (1 / 2));
          horizonFactor = fmul fp (fsqrt fp h) (fl fp (1 / 10))
      in fmul fp baseMargin (fadd fp (Num 1) horizonFactor))"

text \<open>The local \<open>predictedScore\<close> of \<open>calculateScorePrediction\<close>.\<close>

definition predictedScore_fp :: "fpu \<Rightarrow> scoreFeatures \<Rightarrow> jsnum \<Rightarrow> jsnum" where
  "predictedScore_fp fp features h =
     (let baseScore' = averageScore features;
          trendEffect' = fmul fp (scoreTrend features) h;
          improvementEffect' = fmul fp (recentImprovement features) (jmin h (Num 7));
          consistencyEffect' = fmul fp (consistency features) (Num 10)
      in fadd fp (fadd fp (fadd fp baseScore' trendEffect') improvementEffect')
                 consistencyEffect')"

definition calculateScorePrediction_fp :: "fpu \<Rightarrow> scoreFeatures \<Rightarrow> jsnum \<Rightarrow> scorePrediction" where
  "calculateScorePrediction_fp fp features h =
     (let baseScore' = averageScore features;
          trendEffect' = fmul fp (scoreTrend features) h;
          improvementEffect' = fmul fp (recentImprovement features) (jmin h (Num 7));
          consistencyEffect' = fmul fp (consistency features) (Num 10);
          predictedScore = predictedScore_fp fp features h;
          confidence' = calculatePredictionConfidence_fp fp features;
          margin = calculatePredictionMargin_fp fp features h
      in \<lparr> prediction = jmax (Num 0) (jround predictedScore),
           confidence = confidence',
           rangeMin = jmax (Num 0) (jround (fsub fp predictedScore margin)),
           rangeMax = jround (fadd fp predictedScore margin),
           factors = Some \<lparr> baseScore = baseScore', trendEffect = trendEffect',
                            improvementEffect = improvementEffect',
                            consistencyEffect = consistencyEffect' \<rparr>,
           horizon = h \<rparr>)"

definition riskScore_fp :: "fpu \<Rightarrow> churnFeatures \<Rightarrow> jsnum" where
  "riskScore_fp fp features =
     (let riskFactors =
            [ fmul fp (activityDecline features) (fl fp (3 / 10)),
              fmul fp (scoreDecline features) (fl fp (2 / 10)),
              fmul fp (sessionDropoff features) (fl fp (25 / 100)),
              fmul fp (gameAbandonment features) (fl fp (15 / 100)),
              fmul fp (fsub fp (Num 30) (daysSinceLastActivity features)) (fl fp (1 / 10)) ]
      in foldl (\<lambda>sum factor. fadd fp sum factor) (Num 0) riskFactors)"

definition churnProbability_fp :: "fpu \<Rightarrow> churnFeatures \<Rightarrow> jsnum" where
  "churnProbability_fp fp features =
     fdiv fp (Num 1) (fadd fp (Num 1) (fexp fp (jneg (riskScore_fp fp features))))"

definition calculateChurnConfidence_fp :: "fpu \<Rightarrow> churnFeatures \<Rightarrow> jsnum" where
  "calculateChurnConfidence_fp fp features =
     (let factors =
            [ fmul fp (jmin (fdiv fp (daysSinceLastActivity features) (Num 30)) (Num 1))
                      (fl fp (3 / 10)),
              fmul fp (jmin (activityDecline features) (Num 1)) (fl fp (3 / 10)),
              fmul fp (jmin (fdiv fp (scoreDecline features) (Num 50)) (Num 1)) (fl fp (2 / 10)),
              fmul fp (jmin (gameAbandonment features) (Num 1)) (fl fp (2 / 10)) ]
      in jmin (foldl (\<lambda>sum factor. fadd fp sum factor) (Num 0) factors) (Num 1))"

definition classifyRiskLevel_fp :: "fpu \<Rightarrow> jsnum \<Rightarrow> string" where
  "classifyRiskLevel_fp fp p =
     (if jlt p (fl fp (3 / 10)) then ''low''
      else if jlt p (fl fp (6 / 10)) then ''medium''
      else ''high'')"

definition generateChurnRecommendations_fp :: "fpu \<Rightarrow> churnFeatures \<Rightarrow> churnAdvice list" where
  "generateChurnRecommendations_fp fp features =
     (if jgt (activityDecline features) (fl fp (5 / 10)) then [TryNewGame] else []) @
     (if jgt (scoreDecline features) (Num 20) then [LowerDifficulty] else []) @
     (if jgt (daysSinceLastActivity features) (Num 7) then [PlayRegularly] else [])"

definition calculateChurnPrediction_fp :: "fpu \<Rightarrow> churnFeatures \<Rightarrow> jsnum \<Rightarrow> churnPrediction" where
  "calculateChurnPrediction_fp fp features h =
     (let churnProbability' = churnProbability_fp fp features;
          confidence' = calculateChurnConfidence_fp fp features
      in \<lparr> probability = fdiv fp (jround (fmul fp churnProbability' (Num 100))) (Num 100),
           confidence_c = confidence',
           riskLevel = classifyRiskLevel_fp fp churnProbability',
           factors_c = Some \<lparr> activityDecline_f = activityDecline features,
                              scoreDecline_f = scoreDecline features,
                              sessionDropoff_f = sessionDropoff features,
                              gameAbandonment_f = gameAbandonment features,
                              daysSinceLastActivity_f = daysSinceLastActivity features \<rparr>,
           recommendations = generateChurnRecommendations_fp fp features,
           horizon_c = h \<rparr>)"

section \<open>Example inputs\<close>

text \<open>A completed medium memory game with score 90, played at the instant \<open>ts\<close>.\<close>

definition exampleGame :: "int \<Rightarrow> GameRecord" where
  "exampleGame ts =
     \<lparr> gameType = ''memory_game'', difficulty = ''medium'', score = 90, playTime = 100,
       mistakes = None, completed = True, timestamp = ts \<rparr>"

text \<open>A score feature vector of a short, falling history.\<close>

definition fallingFeatures :: scoreFeatures where
  "fallingFeatures =
     \<lparr> averageScore = Num 2, scoreTrend = Num (- 1), scoreVariance = Num 2,
       averagePlayTime = Num 300, averageMistakes = Num 3, completionRate = Num (7 / 10),
       recentImprovement = Num 0, consistency = Num (1 / 4), difficultyLevel = Num 2,
       gameExperience = Num 5 \<rparr>"

text \<open>The default score features with a score variance of 400 (a standard deviation of 20).\<close>

definition spreadFeatures :: scoreFeatures where
  "spreadFeatures =
     \<lparr> averageScore = Num 50, scoreTrend = Num 0, scoreVariance = Num 400,
       averagePlayTime = Num 300, averageMistakes = Num 3, completionRate = Num (7 / 10),
       recentImprovement = Num 0, consistency = Num (1 / 2), difficultyLevel = Num 2,
       gameExperience = Num 5 \<rparr>"

text \<open>A completed medium memory game with score \<open>s\<close>, played at the instant \<open>ts\<close>.\<close>

definition scoredGame :: "real \<Rightarrow> int \<Rightarrow> GameRecord" where
  "scoredGame s ts =
     \<lparr> gameType = ''memory_game'', difficulty = ''medium'', score = s, playTime = 100,
       mistakes = None, completed = True, timestamp = ts \<rparr>"

text \<open>
  Three histories, read at the instant 1700000000000. A slump: ten games a minute
  apart, the last a minute ago, five with score 100 and then five with score 0. An
  active user: one game ten days ago and one an hour ago. An idle user: one game 29
  days ago.
\<close>

definition slumpHistory :: "GameRecord list" where
  "slumpHistory =
     [ scoredGame 100 1699999400000, scoredGame 100 1699999460000,
       scoredGame 100 1699999520000, scoredGame 100 1699999580000,
       scoredGame 100 1699999640000, scoredGame 0 1699999700000,
       scoredGame 0 1699999760000, scoredGame 0 1699999820000,
       scoredGame 0 1699999880000, scoredGame 0 1699999940000 ]"

definition activeHistory :: "GameRecord list" where
  "activeHistory = [ scoredGame 90 1699136000000, scoredGame 90 1699996400000 ]"

definition idleHistory :: "GameRecord list" where
  "idleHistory = [ scoredGame 90 1697494400000 ]"


text \<open>A server that knows one user, \<open>u1\<close>, with the given games, and fails for any other.\<close>

definition exampleServer :: "GameRecord list \<Rightarrow> server" where
  "exampleServer games =
     \<lparr> userData = (\<lambda>u. if u = ''u1'' then Inr games else Inl FetchFailed), requests = 0 \<rparr>"

text \<open>A page in UTC that defines no \<open>getDayOfYear\<close>.\<close>

definition plainHost :: host where
  "plainHost = \<lparr> tzOffset = (\<lambda>ts. 0), getDayOfYear = None \<rparr>"

section \<open>Arithmetic of JavaScript numbers\<close>

lemma jmin_Num [simp]: "jmin (Num a) (Num b) = Num (min a b)"
  by (auto simp: jmin_def)

lemma jmax_Num [simp]: "jmax (Num a) (Num b) = Num (max a b)"
  by (auto simp: jmax_def)

lemma jsub_Num [simp]: "jsub (Num a) (Num b) = Num (a - b)"
  by (simp add: jsub_def)

lemma jadd_NaN [simp]: "jadd x NaN = NaN"
  by (cases x) simp_all

lemma jmul_NaN [simp]: "jmul x NaN = NaN"
  by (cases x) simp_all

lemma jdiv_NaN [simp]: "jdiv x NaN = NaN"
  by (cases x) simp_all

lemma jlt_NaN [simp]: "jlt x NaN = False"
  by (cases x) simp_all

lemma jle_NaN [simp]: "jle x NaN = False"
  by (cases x) simp_all

lemma mean_Nil: "mean [] = NaN"
  by (simp add: mean_def)

lemma sqrt_100: "sqrt 100 = 10"
  by (rule real_sqrt_unique) simp_all

section \<open>The helpers on small inputs\<close>

lemma calculateTrend_example: "calculateTrend [40, 45, 50, 55, 60] = Num 5"
  by (simp add: calculateTrend_def mean_def trendStep_def Let_def upt_rec[of 0] upt_rec[of 1]
        upt_rec[of 2] upt_rec[of 3] upt_rec[of 4] upt_rec[of 5])

lemma variance_example: "variance [40, 45, 50, 55, 60] = Num 50"
  by (simp add: variance_def mean_def Let_def)

lemma calculateRecentImprovement_example:
  "calculateRecentImprovement [40, 45, 50, 55, 60, 65, 70, 75, 80, 85] = Num 25"
  by (simp add: calculateRecentImprovement_def sliceLast_def sliceFromTo_def mean_def Let_def)

lemma getMostFrequent_example:
  "getMostFrequent [''easy'', ''hard'', ''easy'', ''hard''] = Inr ''hard''"
  by (simp add: getMostFrequent_def countItem_def inheritedText_def objectKeys_def
        isArrayIndex_def isDigit_def)

lemma getMostFrequent_index_keys: "getMostFrequent [''10'', ''2''] = Inr ''10''"
  by (simp add: getMostFrequent_def countItem_def inheritedText_def objectKeys_def
        isArrayIndex_def isDigit_def readNat_def)

lemma getMostFrequent_proto: "getMostFrequent [''__proto__''] = Inl TypeError"
  by (simp add: getMostFrequent_def countItem_def objectKeys_def)

lemma getMostFrequent_inherited:
  "getMostFrequent [''easy'', ''constructor'', ''easy''] = Inr ''constructor''"
  by (simp add: getMostFrequent_def countItem_def inheritedText_def objectKeys_def
        isArrayIndex_def isDigit_def)

lemma groupIntoSessions_example:
  "map duration (fst (groupIntoSessions
      [exampleGame 0, exampleGame 5000000, exampleGame 1000, exampleGame 5000001,
       exampleGame 1799999])) = [3, 2]"
  by (simp add: groupIntoSessions_def sessionStep_def mkSession_def exampleGame_def Let_def)

lemma scoreKey_example:
  "scoreKey ''u1'' ''memory_game'' ''medium'' 30 = ''score_u1_memory_game_medium_30''"
  by (simp add: scoreKey_def showNat.simps)

lemma getDay_example:
  "getDay plainHost 1700000000000 = Some 2 \<and> getDay plainHost 8640000000000001 = None"
  by (simp add: getDay_def localDay_def validDate_def plainHost_def)

section \<open>The result cache\<close>

text \<open>
  A call that finds the cache stale, or the key missing, asks the server; no path
  assigns \<open>lastUpdate\<close>.
\<close>

lemma predictScore_miss:
  assumes "updateInterval \<le> now - lastUpdate eng"
  shows "\<exists>r eng'. predictScore srv now eng u g d h =
           Inr (r, eng', srv\<lparr>requests := requests srv + 1\<rparr>) \<and>
           lastUpdate eng' = lastUpdate eng"
  using assms by (auto simp: predictScore_def getUserData_def Let_def split: sum.splits)

lemma predictScore_returns: "\<exists>res. predictScore srv now eng u g d h = Inr res"
  by (auto simp: predictScore_def getUserData_def Let_def split: sum.splits)

lemma predictScore_keeps_lastUpdate:
  "predictScore srv now eng u g d h = Inr (r, eng', srv') \<Longrightarrow> lastUpdate eng' = lastUpdate eng"
  by (auto simp: predictScore_def getUserData_def Let_def split: sum.splits if_splits)

lemma predictEngagement_keeps_lastUpdate:
  "predictEngagement hst srv now eng u h = Inr (r, eng', srv') \<Longrightarrow> lastUpdate eng' = lastUpdate eng"
  by (auto simp: predictEngagement_def getUserData_def Let_def split: sum.splits if_splits)

lemma predictChurnRisk_keeps_lastUpdate:
  "predictChurnRisk srv now eng u h = Inr (r, eng', srv') \<Longrightarrow> lastUpdate eng' = lastUpdate eng"
  by (auto simp: predictChurnRisk_def getUserData_def Let_def split: sum.splits if_splits)

text \<open>
  The check itself works: with the key cached and \<open>now - lastUpdate\<close> below the refresh
  interval, the cached value comes back and the server is not asked.
\<close>

lemma predictScore_hit:
  assumes "cache eng (scoreKey u g d h) = Some r" and "now - lastUpdate eng < updateInterval"
  shows "predictScore srv now eng u g d h = Inr (r, eng, srv)"
  using assms by (simp add: predictScore_def)

text \<open>
  Claim C1. Two identical score requests within the refresh interval: the second should
  return the cached result without asking for the user data again. On an engine as the
  constructor leaves it, at any two instants a day or more after the epoch, the first
  call stores its result and the second call still asks the server again, because
  \<open>lastUpdate\<close> remains 0 and the cache therefore counts as stale.
\<close>

theorem predictScore_refetches:
  assumes "updateInterval \<le> now1" and "updateInterval \<le> now2"
    and "predictScore srv now1 newEngine u g d h = Inr (r1, eng1, srv1)"
    and "predictScore srv1 now2 eng1 u g d h = Inr (r2, eng2, srv2)"
  shows "requests srv1 = requests srv + 1 \<and> requests srv2 = requests srv + 2 \<and>
         lastUpdate eng2 = 0"
proof -
  have l0: "lastUpdate newEngine = 0" by (simp add: newEngine_def)
  from predictScore_miss[of now1 newEngine srv u g d h] assms(1,3) l0
  have a: "srv1 = srv\<lparr>requests := requests srv + 1\<rparr>" "lastUpdate eng1 = 0" by auto
  from predictScore_miss[of now2 eng1 srv1 u g d h] assms(2,4) a
  have b: "srv2 = srv1\<lparr>requests := requests srv1 + 1\<rparr>" "lastUpdate eng2 = 0" by auto
  show ?thesis using a b by simp
qed

theorem predictScore_refetches_witness:
  "\<exists>r1 eng1 srv1 r2 eng2 srv2.
     predictScore (exampleServer []) 1700000000000 newEngine
        ''u1'' ''memory_game'' ''medium'' 7 = Inr (r1, eng1, srv1) \<and>
     predictScore srv1 1700000001000 eng1 ''u1'' ''memory_game'' ''medium'' 7 =
        Inr (r2, eng2, srv2) \<and>
     cache eng1 (scoreKey ''u1'' ''memory_game'' ''medium'' 7) = Some r1 \<and>
     1700000001000 - 1700000000000 < updateInterval \<and>
     requests srv1 = 1 \<and> requests srv2 = 2 \<and> lastUpdate eng2 = 0"
proof -
  obtain r1 eng1 srv1 where 1:
    "predictScore (exampleServer []) 1700000000000 newEngine
       ''u1'' ''memory_game'' ''medium'' 7 = Inr (r1, eng1, srv1)"
    using predictScore_returns by (metis prod_cases3)
  obtain r2 eng2 srv2 where 2:
    "predictScore srv1 1700000001000 eng1 ''u1'' ''memory_game'' ''medium'' 7 =
       Inr (r2, eng2, srv2)"
    using predictScore_returns by (metis prod_cases3)
  have c: "cache eng1 (scoreKey ''u1'' ''memory_game'' ''medium'' 7) = Some r1"
    using 1
    by (auto simp: predictScore_def getUserData_def Let_def newEngine_def updateInterval_def
          exampleServer_def)
  have "requests srv1 = requests (exampleServer []) + 1 \<and>
        requests srv2 = requests (exampleServer []) + 2 \<and> lastUpdate eng2 = 0"
    by (rule predictScore_refetches[OF _ _ 1 2]) (simp_all add: updateInterval_def)
  with 1 2 c show ?thesis by (auto simp: exampleServer_def updateInterval_def)
qed

section \<open>Engagement prediction\<close>

lemma calculateEngagementPrediction_throws:
  "getDayOfYear hst = None \<Longrightarrow> calculateEngagementPrediction hst now f h = Inl TypeError"
  by (simp add: calculateEngagementPrediction_def calculateSeasonalEffect_def Let_def)

text \<open>
  On a page that does define \<open>getDayOfYear\<close>, with a finite day and a finite daily play
  frequency \<open>q\<close>, the prediction is \<open>q + q * 0.1 + sin (day / 365 * 2 * pi) * 0.1\<close>, rounded
  to two decimals and floored at 0, and the label follows the sign of the trend term.
\<close>

lemma calculateEngagementPrediction_formula:
  assumes "getDayOfYear hst = Some m" and "m now = Num day" and "dailyPlayFrequency f = Num q"
  shows "\<exists>p. calculateEngagementPrediction hst now f h = Inr p \<and>
           prediction_e p =
             Num (max 0 (of_int \<lfloor>(q + q * (1 / 10) + sin (day / 365 * 2 * pi) * (1 / 10)) * 100
                                   + 1 / 2\<rfloor> / 100)) \<and>
           trend p = (if 0 < q * (1 / 10) then ''increasing'' else ''decreasing'')"
  using assms
  by (simp add: calculateEngagementPrediction_def calculateSeasonalEffect_def Let_def
        calculateEngagementTrend_def jgt_def)

text \<open>
  Claim C2. The engagement prediction should be the daily play frequency plus a tenth
  of it plus the seasonal term, with the trend label increasing or decreasing. Where
  \<open>Date\<close> objects have no method \<open>getDayOfYear\<close>, \<open>calculateSeasonalEffect\<close> throws for
  every feature vector and horizon, so \<open>calculateEngagementPrediction\<close> returns no
  result, and \<open>predictEngagement\<close> on a new engine answers every request with the default
  result: prediction 0.5 and the label stable.
\<close>

theorem predictEngagement_always_default:
  assumes "getDayOfYear hst = None"
  shows "calculateEngagementPrediction hst now f (Num (real h)) = Inl TypeError \<and>
         predictEngagement hst srv now newEngine u h =
           Inr (EngagementP \<lparr> prediction_e = Num (1 / 2), confidence_e = Num (1 / 2),
                              trend = ''stable'', factors_e = None, horizon_e = Num 7 \<rparr>,
                newEngine, srv\<lparr>requests := requests srv + 1\<rparr>)"
  using assms
  by (auto simp: predictEngagement_def calculateEngagementPrediction_throws getUserData_def
        newEngine_def Let_def getDefaultEngagementPrediction_def split: sum.splits)

theorem predictEngagement_always_default_witness:
  "getDayOfYear plainHost = None \<and>
   calculateEngagementPrediction plainHost 1700000000000
      (extractEngagementFeatures plainHost 1700000000000 [exampleGame 1699999000000])
      (Num (real 7)) = Inl TypeError \<and>
   predictEngagement plainHost (exampleServer [exampleGame 1699999000000])
       1700000000000 newEngine ''u1'' 7 =
     Inr (EngagementP \<lparr> prediction_e = Num (1 / 2), confidence_e = Num (1 / 2),
                        trend = ''stable'', factors_e = None, horizon_e = Num 7 \<rparr>,
          newEngine, (exampleServer [exampleGame 1699999000000])\<lparr>requests := 1\<rparr>)"
proof -
  have n: "getDayOfYear plainHost = None" by (simp add: plainHost_def)
  show ?thesis
    using n
      predictEngagement_always_default[OF n, where h = 7 and now = 1700000000000
        and f = "extractEngagementFeatures plainHost 1700000000000 [exampleGame 1699999000000]"
        and srv = "exampleServer [exampleGame 1699999000000]" and u = "''u1''"]
    by (simp add: exampleServer_def)
qed

section \<open>Exceptions\<close>

lemma predictEngagement_returns: "\<exists>res. predictEngagement hst srv now eng u h = Inr res"
  by (auto simp: predictEngagement_def getUserData_def Let_def split: sum.splits)

lemma predictChurnRisk_returns: "\<exists>res. predictChurnRisk srv now eng u h = Inr res"
  by (auto simp: predictChurnRisk_def getUserData_def Let_def split: sum.splits)

lemma recommendDifficulty_returns: "\<exists>res. recommendDifficulty srv u g = Inr res"
  by (auto simp: recommendDifficulty_def getUserData_def Let_def split: sum.splits)

lemma recommendGames_returns: "\<exists>res. recommendGames srv now u n = Inr res"
  by (auto simp: recommendGames_def getUserData_def Let_def split: sum.splits)

text \<open>
  Claim C5. No public method rejects: each of the five returns a result on every input.
  When the fetch of the user data fails, and the result does not come from the cache,
  each method returns its fixed default: for the score prediction 50 with confidence
  0.5 and range 30 to 70, for the difficulty medium with confidence 0.5; nothing is
  stored in the cache. The same holds when the computation of the prediction throws,
  as the engagement prediction does where \<open>getDayOfYear\<close> is not defined.
\<close>

theorem public_methods_catch:
  "(\<exists>res. predictScore srv now eng userId gt d h = Inr res) \<and>
   (\<exists>res. predictEngagement hst srv now eng userId h = Inr res) \<and>
   (\<exists>res. predictChurnRisk srv now eng userId h = Inr res) \<and>
   (\<exists>res. recommendDifficulty srv userId gt = Inr res) \<and>
   (\<exists>res. recommendGames srv now userId n = Inr res) \<and>
   (userData srv userId = Inl err \<longrightarrow>
      (cache eng (scoreKey userId gt d h) = None \<or> updateInterval \<le> now - lastUpdate eng \<longrightarrow>
         predictScore srv now eng userId gt d h =
           Inr (ScoreP \<lparr> prediction = Num 50, confidence = Num (1 / 2), rangeMin = Num 30,
                         rangeMax = Num 70, factors = None, horizon = Num 7 \<rparr>,
                eng, srv\<lparr>requests := requests srv + 1\<rparr>)) \<and>
      (cache eng (engagementKey userId h) = None \<or> updateInterval \<le> now - lastUpdate eng \<longrightarrow>
         predictEngagement hst srv now eng userId h =
           Inr (EngagementP getDefaultEngagementPrediction, eng,
                srv\<lparr>requests := requests srv + 1\<rparr>)) \<and>
      (cache eng (churnKey userId h) = None \<or> updateInterval \<le> now - lastUpdate eng \<longrightarrow>
         predictChurnRisk srv now eng userId h =
           Inr (ChurnP getDefaultChurnPrediction, eng, srv\<lparr>requests := requests srv + 1\<rparr>)) \<and>
      recommendDifficulty srv userId gt =
        Inr (\<lparr> recommended = ''medium'', confidence_d = Num (1 / 2), reasoning = None \<rparr>,
             srv\<lparr>requests := requests srv + 1\<rparr>) \<and>
      recommendGames srv now userId n =
        Inr (getDefaultGameRecommendations n, srv\<lparr>requests := requests srv + 1\<rparr>)) \<and>
   (getDayOfYear hst = None \<longrightarrow>
      (cache eng (engagementKey userId h) = None \<or> updateInterval \<le> now - lastUpdate eng \<longrightarrow>
         predictEngagement hst srv now eng userId h =
           Inr (EngagementP getDefaultEngagementPrediction, eng,
                srv\<lparr>requests := requests srv + 1\<rparr>)))"
  apply (intro conjI impI)
  subgoal by (rule predictScore_returns)
  subgoal by (rule predictEngagement_returns)
  subgoal by (rule predictChurnRisk_returns)
  subgoal by (rule recommendDifficulty_returns)
  subgoal by (rule recommendGames_returns)
  subgoal by (auto simp: predictScore_def getUserData_def getDefaultPrediction_def)
  subgoal by (auto simp: predictEngagement_def getUserData_def)
  subgoal by (auto simp: predictChurnRisk_def getUserData_def)
  subgoal by (simp add: recommendDifficulty_def getUserData_def)
  subgoal by (simp add: recommendGames_def getUserData_def)
  subgoal
    by (auto simp: predictEngagement_def getUserData_def Let_def
          calculateEngagementPrediction_throws split: sum.splits)
  done

theorem public_methods_catch_witness:
  "userData (exampleServer []) ''u2'' = Inl FetchFailed \<and>
   cache newEngine (scoreKey ''u2'' ''memory_game'' ''medium'' 7) = None \<and>
   predictScore (exampleServer []) 1700000000000 newEngine ''u2'' ''memory_game'' ''medium'' 7 =
     Inr (ScoreP \<lparr> prediction = Num 50, confidence = Num (1 / 2), rangeMin = Num 30,
                   rangeMax = Num 70, factors = None, horizon = Num 7 \<rparr>,
          newEngine, (exampleServer [])\<lparr>requests := 1\<rparr>) \<and>
   recommendDifficulty (exampleServer []) ''u2'' ''memory_game'' =
     Inr (\<lparr> recommended = ''medium'', confidence_d = Num (1 / 2), reasoning = None \<rparr>,
          (exampleServer [])\<lparr>requests := 1\<rparr>) \<and>
   getDayOfYear plainHost = None \<and>
   predictEngagement plainHost (exampleServer []) 1700000000000 newEngine ''u1'' 7 =
     Inr (EngagementP getDefaultEngagementPrediction, newEngine,
          (exampleServer [])\<lparr>requests := 1\<rparr>)"
proof -
  have f: "userData (exampleServer []) ''u2'' = Inl FetchFailed"
    by (simp add: exampleServer_def)
  have c: "cache newEngine (scoreKey ''u2'' ''memory_game'' ''medium'' 7) = None"
    by (simp add: newEngine_def)
  have r: "requests (exampleServer []) = 0" by (simp add: exampleServer_def)
  have g: "getDayOfYear plainHost = None" by (simp add: plainHost_def)
  have c': "cache newEngine (engagementKey ''u1'' 7) = None"
    by (simp add: newEngine_def)
  show ?thesis
    using f c r g c'
      public_methods_catch[of "exampleServer []" 1700000000000 newEngine "''u2''"
        "''memory_game''" "''medium''" 7 plainHost 3 FetchFailed]
      public_methods_catch[of "exampleServer []" 1700000000000 newEngine "''u1''"
        "''memory_game''" "''medium''" 7 plainHost 3 FetchFailed]
    by simp
qed

section \<open>Score features\<close>

text \<open>
  Claim C6. When fewer than 5 games of the user have the requested game type, the
  requested difficulty and a timestamp within the last 30 days, \<open>extractScoreFeatures\<close>
  returns exactly the default feature vector.
\<close>

theorem extractScoreFeatures_default:
  "length (filter (\<lambda>g. gameType g = gt \<and> difficulty g = d \<and>
                        timestamp g > now - 30 * 24 * 60 * 60 * 1000) games) < 5 \<Longrightarrow>
   extractScoreFeatures now games gt d =
     \<lparr> averageScore = Num 50, scoreTrend = Num 0, scoreVariance = Num 25,
       averagePlayTime = Num 300, averageMistakes = Num 3, completionRate = Num (7 / 10),
       recentImprovement = Num 0, consistency = Num (1 / 2), difficultyLevel = Num 2,
       gameExperience = Num 5 \<rparr>"
  by (simp add: extractScoreFeatures_def getDefaultFeatures_def)

theorem extractScoreFeatures_default_witness:
  "length (filter (\<lambda>g. gameType g = ''memory_game'' \<and> difficulty g = ''medium'' \<and>
                        timestamp g > 1700000000000 - 30 * 24 * 60 * 60 * 1000)
             [exampleGame 1699999000000, exampleGame 1699999100000,
              exampleGame 1699999200000, exampleGame 1699999300000,
              exampleGame 1600000000000]) = 4 \<and>
   extractScoreFeatures 1700000000000
     [exampleGame 1699999000000, exampleGame 1699999100000,
      exampleGame 1699999200000, exampleGame 1699999300000,
      exampleGame 1600000000000] ''memory_game'' ''medium'' =
     \<lparr> averageScore = Num 50, scoreTrend = Num 0, scoreVariance = Num 25,
       averagePlayTime = Num 300, averageMistakes = Num 3, completionRate = Num (7 / 10),
       recentImprovement = Num 0, consistency = Num (1 / 2), difficultyLevel = Num 2,
       gameExperience = Num 5 \<rparr>"
proof -
  have l: "length (filter (\<lambda>g. gameType g = ''memory_game'' \<and> difficulty g = ''medium'' \<and>
                        timestamp g > 1700000000000 - 30 * 24 * 60 * 60 * 1000)
             [exampleGame 1699999000000, exampleGame 1699999100000,
              exampleGame 1699999200000, exampleGame 1699999300000,
              exampleGame 1600000000000]) = 4"
    by (simp add: exampleGame_def)
  then have "length (filter (\<lambda>g. gameType g = ''memory_game'' \<and> difficulty g = ''medium'' \<and>
                        timestamp g > 1700000000000 - 30 * 24 * 60 * 60 * 1000)
             [exampleGame 1699999000000, exampleGame 1699999100000,
              exampleGame 1699999200000, exampleGame 1699999300000,
              exampleGame 1600000000000]) < 5"
    by (simp only:)
  from extractScoreFeatures_default[OF this] l show ?thesis by (simp only: simp_thms)
qed

text \<open>With five qualifying games the features are computed from the data.\<close>

lemma extractScoreFeatures_computed:
  "averageScore (extractScoreFeatures 2000 (replicate 5 (exampleGame 1000))
      ''memory_game'' ''medium'') = Num 90"
  by (simp add: extractScoreFeatures_def Let_def mean_def numeral_eq_Suc exampleGame_def)

section \<open>Difficulty recommendation\<close>



section \<open>Rounded arithmetic\<close>

lemma rounding_exactFpu: "rounding exactFpu"
  by (simp add: rounding_def exactFpu_def)

lemma rnd_exact [simp]: "rnd exactFpu x = x"
  by (cases x) (simp_all add: rnd_def exactFpu_def)

lemma fl_exact [simp]: "fl exactFpu c = Num c"
  by (simp add: exactFpu_def)

lemma fsqrt_exact [simp]: "fsqrt exactFpu x = jsqrt x"
  by (cases x) (simp_all add: fsqrt_def exactFpu_def)

lemma fexp_exact [simp]: "fexp exactFpu x = jexp x"
  by (cases x) (simp_all add: fexp_def exactFpu_def)

text \<open>With the exact unit the rounded computations are the ones defined first.\<close>

lemma calculateScorePrediction_exact:
  "calculateScorePrediction_fp exactFpu f h = calculateScorePrediction f h"
  by (simp add: calculateScorePrediction_fp_def calculateScorePrediction_def predictedScore_fp_def
        calculatePredictionConfidence_fp_def calculatePredictionConfidence_def
        calculatePredictionMargin_fp_def calculatePredictionMargin_def
        fadd_def fsub_def fmul_def fdiv_def Let_def)

lemma riskScore_exact: "riskScore_fp exactFpu f = riskScore f"
  by (simp add: riskScore_fp_def riskScore_def fadd_def fsub_def fmul_def Let_def)

lemma calculateChurnPrediction_exact:
  "calculateChurnPrediction_fp exactFpu f h = calculateChurnPrediction f h"
  by (simp add: calculateChurnPrediction_fp_def calculateChurnPrediction_def
        churnProbability_fp_def churnProbability_def riskScore_fp_def riskScore_def
        calculateChurnConfidence_fp_def calculateChurnConfidence_def
        classifyRiskLevel_fp_def classifyRiskLevel_def
        generateChurnRecommendations_fp_def generateChurnRecommendations_def
        fadd_def fsub_def fmul_def fdiv_def Let_def)

lemma fl_mono: "rounding fp \<Longrightarrow> x \<le> y \<Longrightarrow> jle (fl fp x) (fl fp y)"
  by (simp add: rounding_def)

lemma fl_nonneg: "rounding fp \<Longrightarrow> 0 \<le> x \<Longrightarrow> jle (Num 0) (fl fp x)"
  using fl_mono[of fp 0 x] by (simp add: rounding_def)

lemma fl_le_1: "rounding fp \<Longrightarrow> x \<le> 1 \<Longrightarrow> jle (fl fp x) (Num 1)"
  using fl_mono[of fp x 1] by (simp add: rounding_def)

lemma fl_le_100: "rounding fp \<Longrightarrow> x \<le> 100 \<Longrightarrow> jle (fl fp x) (Num 100)"
  using fl_mono[of fp x 100] by (simp add: rounding_def)

lemma between_finite:
  assumes "jle (Num a) x" and "jle x (Num b)"
  shows "\<exists>z. x = Num z \<and> a \<le> z \<and> z \<le> b"
  using assms by (cases x) simp_all

lemma fl_unit:
  assumes "rounding fp" and "0 \<le> x" and "x \<le> 1"
  shows "\<exists>z. fl fp x = Num z \<and> 0 \<le> z \<and> z \<le> 1"
  using between_finite[OF fl_nonneg[OF assms(1,2)] fl_le_1[OF assms(1,3)]] .

lemma fmul_nonneg:
  assumes "rounding fp" and "jle (Num 0) x" and "jle (Num 0) y"
  shows "fmul fp x y = NaN \<or> jle (Num 0) (fmul fp x y)"
proof (cases x)
  case (Num a)
  note x = this
  show ?thesis
  proof (cases y)
    case (Num b)
    have "0 \<le> a * b" using assms(2,3) x Num by simp
    then show ?thesis using fl_nonneg[OF assms(1)] by (simp add: fmul_def rnd_def x Num)
  qed (use assms x in \<open>auto simp: fmul_def rnd_def\<close>)
next
  case PInf
  then show ?thesis using assms by (cases y) (auto simp: fmul_def rnd_def)
qed (use assms in auto)

lemma fadd_nonneg:
  assumes "rounding fp" and "jle (Num 0) x" and "jle (Num 0) y"
  shows "jle (Num 0) (fadd fp x y)"
proof (cases x)
  case (Num a)
  note x = this
  show ?thesis
  proof (cases y)
    case (Num b)
    have "0 \<le> a + b" using assms(2,3) x Num by simp
    then show ?thesis using fl_nonneg[OF assms(1)] by (simp add: fadd_def rnd_def x Num)
  qed (use assms x in \<open>auto simp: fadd_def rnd_def\<close>)
next
  case PInf
  then show ?thesis using assms by (cases y) (auto simp: fadd_def rnd_def)
qed (use assms in auto)

section \<open>Churn probability\<close>

lemma riskScore_Num:
  assumes "activityDecline f = Num a" and "scoreDecline f = Num s" and "sessionDropoff f = Num p"
    and "gameAbandonment f = Num g" and "daysSinceLastActivity f = Num d"
  shows "riskScore f =
           Num (a * (3 / 10) + s * (2 / 10) + p * (25 / 100) + g * (15 / 100) + (30 - d) * (1 / 10))"
  using assms by (simp add: riskScore_def)

lemma churnProbability_Num:
  assumes "riskScore f = Num r"
  shows "churnProbability f = Num (1 / (1 + exp (- r)))"
proof -
  have "1 + exp (- r) \<noteq> 0" using exp_gt_zero[of "- r"] by linarith
  then show ?thesis using assms by (simp add: churnProbability_def)
qed

lemma probability_Num:
  assumes "riskScore f = Num r"
  shows "probability (calculateChurnPrediction f h) =
           Num (of_int \<lfloor>1 / (1 + exp (- r)) * 100 + 1 / 2\<rfloor> / 100)"
  using churnProbability_Num[OF assms] by (simp add: calculateChurnPrediction_def Let_def)

text \<open>The churn features of the three histories.\<close>

lemmas churn_feature_defs =
  extractChurnFeatures_def calculateActivityDecline_def calculateSessionDropoff_def
  groupIntoSessions_def sessionStep_def mkSession_def calculateScoreDecline_def
  calculateGameAbandonment_def calculateDaysSinceLastActivity_def sliceLast_def
  sliceFromTo_def mean_def Let_def case_prod_unfold scoredGame_def

lemma slump_features:
  "activityDecline (fst (extractChurnFeatures 1700000000000 slumpHistory)) = Num (- 10)"
  "scoreDecline (fst (extractChurnFeatures 1700000000000 slumpHistory)) = Num 100"
  "sessionDropoff (fst (extractChurnFeatures 1700000000000 slumpHistory)) = Num 0"
  "gameAbandonment (fst (extractChurnFeatures 1700000000000 slumpHistory)) = Num 0"
  "daysSinceLastActivity (fst (extractChurnFeatures 1700000000000 slumpHistory)) = Num 0"
  by (simp_all add: churn_feature_defs slumpHistory_def)

lemma active_features:
  "activityDecline (fst (extractChurnFeatures 1700000000000 activeHistory)) = Num 0"
  "scoreDecline (fst (extractChurnFeatures 1700000000000 activeHistory)) = Num 0"
  "sessionDropoff (fst (extractChurnFeatures 1700000000000 activeHistory)) = Num 0"
  "gameAbandonment (fst (extractChurnFeatures 1700000000000 activeHistory)) = Num 0"
  "daysSinceLastActivity (fst (extractChurnFeatures 1700000000000 activeHistory)) = Num 0"
  by (simp_all add: churn_feature_defs activeHistory_def)

lemma idle_features:
  "activityDecline (fst (extractChurnFeatures 1700000000000 idleHistory)) = Num 0"
  "scoreDecline (fst (extractChurnFeatures 1700000000000 idleHistory)) = Num 0"
  "sessionDropoff (fst (extractChurnFeatures 1700000000000 idleHistory)) = Num 0"
  "gameAbandonment (fst (extractChurnFeatures 1700000000000 idleHistory)) = Num 0"
  "daysSinceLastActivity (fst (extractChurnFeatures 1700000000000 idleHistory)) = Num 29"
  by (simp_all add: churn_feature_defs idleHistory_def)

lemma exp_20_big: "199 < exp (20 :: real)"
proof -
  have "1 + (5 :: real) \<le> exp 5" by (rule exp_ge_add_one_self)
  then have 5: "(6 :: real) \<le> exp 5" by simp
  then have "6 * 6 \<le> exp 5 * exp (5 :: real)" by (intro mult_mono) auto
  then have 10: "(36 :: real) \<le> exp 10" by (simp add: exp_add[symmetric])
  then have "36 * 36 \<le> exp 10 * exp (10 :: real)" by (intro mult_mono) auto
  then have "(1296 :: real) \<le> exp 20" by (simp add: exp_add[symmetric])
  then show ?thesis by simp
qed

text \<open>The slump has risk score 20: the probability times 100 is above 99.5 and rounds to 100.\<close>

lemma slump_probability:
  "probability (calculateChurnPrediction_fp exactFpu
      (fst (extractChurnFeatures 1700000000000 slumpHistory)) (Num 30)) = Num 1"
proof -
  have r: "riskScore (fst (extractChurnFeatures 1700000000000 slumpHistory)) = Num 20"
    using riskScore_Num[OF slump_features] by simp
  define q where "q = 1 / (1 + exp (- 20 :: real))"
  have "exp (- 20 :: real) < 1 / 199"
    using exp_20_big by (simp add: exp_minus field_simps)
  then have "1 + exp (- 20 :: real) < 200 / 199" by simp
  moreover have "0 < 1 + exp (- 20 :: real)" by (simp add: add_pos_pos)
  ultimately have "1 / (200 / 199) < 1 / (1 + exp (- 20 :: real))"
    by (intro divide_strict_left_mono) simp_all
  then have ge: "100 \<le> q * 100 + 1 / 2" by (simp add: q_def)
  have pos: "0 < 1 + exp (- 20 :: real)" by (simp add: add_pos_pos)
  have "1 < 1 + exp (- 20 :: real)" by simp
  then have "1 / (1 + exp (- 20 :: real)) < 1" using pos by (simp only: divide_less_eq_1_pos)
  then have "q < 1" by (simp only: q_def)
  then have lt: "q * 100 + 1 / 2 < 101" by simp
  have "\<lfloor>q * 100 + 1 / 2\<rfloor> = 100"
    using lt ge by (simp add: floor_eq_iff)
  then show ?thesis
    using probability_Num[OF r] by (simp add: q_def calculateChurnPrediction_exact)
qed

text \<open>The active user has risk score 3, the idle user 0.1.\<close>

lemma active_probability:
  "jle (Num (4 / 5)) (probability (calculateChurnPrediction_fp exactFpu
      (fst (extractChurnFeatures 1700000000000 activeHistory)) (Num 30)))"
proof -
  have r: "riskScore (fst (extractChurnFeatures 1700000000000 activeHistory)) = Num 3"
    using riskScore_Num[OF active_features] by simp
  define q where "q = 1 / (1 + exp (- 3 :: real))"
  have "(4::real) \<le> exp 3" using exp_ge_add_one_self[of "3::real"] by simp
  then have "exp (- 3 :: real) \<le> 1 / 4" by (simp add: exp_minus field_simps)
  then have "1 + exp (- 3 :: real) \<le> 5 / 4" by simp
  then have "1 / (5 / 4) \<le> 1 / (1 + exp (- 3 :: real))"
    by (intro divide_left_mono) (auto intro: add_pos_pos)
  then have "(80::real) \<le> q * 100 + 1 / 2" by (simp add: q_def)
  then have "80 \<le> \<lfloor>q * 100 + 1 / 2\<rfloor>" by (simp only: le_floor_iff of_int_numeral)
  then have "(4 / 5 :: real) \<le> of_int \<lfloor>q * 100 + 1 / 2\<rfloor> / 100" by simp
  then show ?thesis
    unfolding calculateChurnPrediction_exact probability_Num[OF r] q_def
    by (simp only: jle.simps)
qed

lemma idle_probability:
  "jle (probability (calculateChurnPrediction_fp exactFpu
      (fst (extractChurnFeatures 1700000000000 idleHistory)) (Num 30))) (Num (3 / 4))"
proof -
  have r: "riskScore (fst (extractChurnFeatures 1700000000000 idleHistory)) = Num (1 / 10)"
    using riskScore_Num[OF idle_features] by simp
  define q where "q = 1 / (1 + exp (- (1 / 10) :: real))"
  have "exp (1 / 10 :: real) \<le> exp 1" by simp
  also have "\<dots> \<le> 3" by (rule exp_le)
  finally have "exp (1 / 10 :: real) \<le> 3" .
  then have "1 / 3 \<le> exp (- (1 / 10) :: real)" by (simp add: exp_minus field_simps)
  then have "4 / 3 \<le> 1 + exp (- (1 / 10) :: real)" by simp
  then have "1 / (1 + exp (- (1 / 10) :: real)) \<le> 1 / (4 / 3)"
    by (intro divide_left_mono) (auto intro: add_pos_pos)
  then have "q * 100 + 1 / 2 < 76" by (simp add: q_def)
  then have "\<lfloor>q * 100 + 1 / 2\<rfloor> < 76" by (simp only: floor_less_iff of_int_numeral)
  then have "\<lfloor>q * 100 + 1 / 2\<rfloor> \<le> 75" by simp
  then have "of_int \<lfloor>q * 100 + 1 / 2\<rfloor> / 100 \<le> (3 / 4 :: real)" by simp
  then show ?thesis
    unfolding calculateChurnPrediction_exact probability_Num[OF r] q_def
    by (simp only: jle.simps)
qed

text \<open>
  Claim C3, as stated: the churn probability never decreases as the days since the
  last activity grow, and lies strictly between 0 and 1. For the slump the returned
  probability is exactly 1. The active and the idle user have the same activity
  decline, score decline, session dropoff and game abandonment (all 0) and 0 and 29
  days since the last activity, and the idle user's probability is the lower one.
\<close>

theorem churn_probability_counterexample:
  "probability (calculateChurnPrediction_fp exactFpu
      (fst (extractChurnFeatures 1700000000000 slumpHistory)) (Num 30)) = Num 1 \<and>
   activityDecline (fst (extractChurnFeatures 1700000000000 activeHistory)) =
     activityDecline (fst (extractChurnFeatures 1700000000000 idleHistory)) \<and>
   scoreDecline (fst (extractChurnFeatures 1700000000000 activeHistory)) =
     scoreDecline (fst (extractChurnFeatures 1700000000000 idleHistory)) \<and>
   sessionDropoff (fst (extractChurnFeatures 1700000000000 activeHistory)) =
     sessionDropoff (fst (extractChurnFeatures 1700000000000 idleHistory)) \<and>
   gameAbandonment (fst (extractChurnFeatures 1700000000000 activeHistory)) =
     gameAbandonment (fst (extractChurnFeatures 1700000000000 idleHistory)) \<and>
   daysSinceLastActivity (fst (extractChurnFeatures 1700000000000 activeHistory)) = Num 0 \<and>
   daysSinceLastActivity (fst (extractChurnFeatures 1700000000000 idleHistory)) = Num 29 \<and>
   jlt (probability (calculateChurnPrediction_fp exactFpu
          (fst (extractChurnFeatures 1700000000000 idleHistory)) (Num 30)))
       (probability (calculateChurnPrediction_fp exactFpu
          (fst (extractChurnFeatures 1700000000000 activeHistory)) (Num 30)))"
proof -
  have "jle y (Num (3 / 4)) \<Longrightarrow> jle (Num (4 / 5)) x \<Longrightarrow> jlt y x" for x y
    by (cases x; cases y) simp_all
  from this[OF idle_probability active_probability]
  show ?thesis
    using slump_probability active_features idle_features by simp
qed

lemma fexp_nonneg:
  assumes "rounding fp" and "r \<noteq> NaN"
  shows "jle (Num 0) (fexp fp (jneg r))"
  using assms by (cases r) (simp_all add: fexp_def rounding_def)

lemma one_plus_ge_1:
  assumes "rounding fp" and "jle (Num 0) e"
  shows "jle (Num 1) (fadd fp (Num 1) e)"
proof (cases e)
  case (Num y)
  then have "1 \<le> 1 + y" using assms(2) by simp
  from fl_mono[OF assms(1) this] show ?thesis
    using assms(1) by (simp add: fadd_def rnd_def Num rounding_def)
qed (use assms in \<open>auto simp: fadd_def rnd_def\<close>)

lemma reciprocal_unit:
  assumes "rounding fp" and "jle (Num 1) d"
  shows "\<exists>q. fdiv fp (Num 1) d = Num q \<and> 0 \<le> q \<and> q \<le> 1"
proof (cases d)
  case (Num z)
  then have z: "1 \<le> z" using assms(2) by simp
  then have "0 \<le> 1 / z" "1 / z \<le> 1" by simp_all
  from fl_unit[OF assms(1) this] show ?thesis using z by (simp add: fdiv_def rnd_def Num)
next
  case PInf
  then show ?thesis using assms(1) by (simp add: fdiv_def rnd_def rounding_def)
qed (use assms in auto)

lemma two_decimals_unit:
  assumes "rounding fp" and "0 \<le> q" and "q \<le> 1"
  shows "\<exists>x. fdiv fp (jround (fmul fp (Num q) (Num 100))) (Num 100) = Num x \<and>
              0 \<le> x \<and> x \<le> 1"
proof -
  have "0 \<le> q * 100" "q * 100 \<le> 100" using assms(2,3) by simp_all
  from between_finite[OF fl_nonneg[OF assms(1) this(1)] fl_le_100[OF assms(1) this(2)]]
  obtain y where y: "fl fp (q * 100) = Num y" "0 \<le> y" "y \<le> 100" by blast
  have n0: "0 \<le> \<lfloor>y + 1 / 2\<rfloor>" using y(2) by simp
  have n1: "\<lfloor>y + 1 / 2\<rfloor> \<le> 100" using y(3) by (simp add: floor_le_iff)
  have "0 \<le> real_of_int \<lfloor>y + 1 / 2\<rfloor> / 100" "real_of_int \<lfloor>y + 1 / 2\<rfloor> / 100 \<le> 1"
    using n0 n1 by simp_all
  from fl_unit[OF assms(1) this] show ?thesis
    by (simp add: fdiv_def fmul_def rnd_def y(1))
qed

text \<open>
  Claim C3, amended. Whenever the risk score is a number (no factor is NaN), the
  churn probability is the logistic transform \<open>1 / (1 + exp (- risk))\<close> of the risk
  score, never the score itself, and the returned probability is that value rounded to
  two decimals. Both lie between 0 and 1, the ends included, in the arithmetic of the
  code: this holds for every unit that rounds as described above. Nothing is said of
  how the probability moves with the days since the last activity.
\<close>

theorem churn_probability_in_unit_interval:
  assumes "rounding fp" and "riskScore_fp fp f \<noteq> NaN"
  shows "churnProbability_fp fp f =
           fdiv fp (Num 1) (fadd fp (Num 1) (fexp fp (jneg (riskScore_fp fp f)))) \<and>
         jle (Num 0) (churnProbability_fp fp f) \<and> jle (churnProbability_fp fp f) (Num 1) \<and>
         probability (calculateChurnPrediction_fp fp f h) =
           fdiv fp (jround (fmul fp (churnProbability_fp fp f) (Num 100))) (Num 100) \<and>
         jle (Num 0) (probability (calculateChurnPrediction_fp fp f h)) \<and>
         jle (probability (calculateChurnPrediction_fp fp f h)) (Num 1)"
proof -
  have e: "jle (Num 0) (fexp fp (jneg (riskScore_fp fp f)))"
    by (rule fexp_nonneg[OF assms])
  have d: "jle (Num 1) (fadd fp (Num 1) (fexp fp (jneg (riskScore_fp fp f))))"
    by (rule one_plus_ge_1[OF assms(1) e])
  from reciprocal_unit[OF assms(1) d]
  obtain q where q: "churnProbability_fp fp f = Num q" "0 \<le> q" "q \<le> 1"
    by (auto simp: churnProbability_fp_def)
  from two_decimals_unit[OF assms(1) q(2,3)]
  obtain x where x: "fdiv fp (jround (fmul fp (Num q) (Num 100))) (Num 100) = Num x"
    "0 \<le> x" "x \<le> 1" by blast
  have p: "probability (calculateChurnPrediction_fp fp f h) =
           fdiv fp (jround (fmul fp (churnProbability_fp fp f) (Num 100))) (Num 100)"
    by (simp add: calculateChurnPrediction_fp_def Let_def)
  show ?thesis
    using q x p by (simp add: churnProbability_fp_def)
qed

theorem churn_probability_in_unit_interval_witness:
  "rounding exactFpu \<and>
   riskScore_fp exactFpu (fst (extractChurnFeatures 1700000000000 activeHistory)) = Num 3 \<and>
   jle (Num 0) (probability (calculateChurnPrediction_fp exactFpu
          (fst (extractChurnFeatures 1700000000000 activeHistory)) (Num 30))) \<and>
   jle (probability (calculateChurnPrediction_fp exactFpu
          (fst (extractChurnFeatures 1700000000000 activeHistory)) (Num 30))) (Num 1)"
proof -
  have r: "riskScore_fp exactFpu (fst (extractChurnFeatures 1700000000000 activeHistory)) = Num 3"
    using riskScore_Num[OF active_features] by (simp add: riskScore_exact)
  then have n: "riskScore_fp exactFpu (fst (extractChurnFeatures 1700000000000 activeHistory)) \<noteq> NaN"
    by simp
  from churn_probability_in_unit_interval[OF rounding_exactFpu n, of "Num 30"]
    rounding_exactFpu r
  show ?thesis by blast
qed

section \<open>Prediction confidence\<close>

text \<open>
  Claim C4, as stated: the confidence of a score prediction lies between 0 and 1. For
  the default features with a score variance of 400 the confidence is -0.7.
\<close>

theorem confidence_negative_counterexample:
  "calculatePredictionConfidence spreadFeatures = Num (- 7 / 10) \<and>
   confidence (calculateScorePrediction spreadFeatures (Num 7)) = Num (- 7 / 10) \<and>
   jlt (confidence (calculateScorePrediction spreadFeatures (Num 7))) (Num 0)"
  by (simp add: calculateScorePrediction_def calculatePredictionConfidence_def
        spreadFeatures_def Let_def)

text \<open>
  Claim C4, amended. The confidence is the weighted sum
  \<open>0.3 * consistency + 0.2 * min (gameExperience / 20) 1 + 0.3 * (1 - scoreVariance / 100)
  + 0.2 * min (recentImprovement / 10) 1\<close> limited to at most 1; there is no lower limit.
  So the confidence of a score prediction never exceeds 1, and for finite features it
  is exactly that minimum.
\<close>

theorem confidence_clamped_above:
  assumes "consistency f = Num c" and "gameExperience f = Num e"
    and "scoreVariance f = Num v" and "recentImprovement f = Num r"
  shows "calculatePredictionConfidence f =
           Num (min (c * (3 / 10) + min (e / 20) 1 * (2 / 10) + (1 - v / 100) * (3 / 10)
                     + min (r / 10) 1 * (2 / 10)) 1) \<and>
         confidence (calculateScorePrediction f h) = calculatePredictionConfidence f \<and>
         jle (confidence (calculateScorePrediction f h)) (Num 1)"
  using assms
  by (simp add: calculateScorePrediction_def calculatePredictionConfidence_def Let_def)

theorem confidence_clamped_above_witness:
  "calculatePredictionConfidence getDefaultFeatures = Num (17 / 40) \<and>
   confidence (calculateScorePrediction getDefaultFeatures (Num 7)) = Num (17 / 40) \<and>
   jle (confidence (calculateScorePrediction getDefaultFeatures (Num 7))) (Num 1)"
  using confidence_clamped_above[of getDefaultFeatures "1 / 2" 5 25 0 "Num 7"]
  by (simp add: getDefaultFeatures_def)

text \<open>Whatever the features, NaN and the infinities included, the confidence is not above 1.\<close>

lemma confidence_not_above_1: "\<not> jlt (Num 1) (calculatePredictionConfidence f)"
  unfolding calculatePredictionConfidence_def Let_def
  by (simp add: jmin_def)

section \<open>The prediction range\<close>

text \<open>
  Claim C10, as stated: with a non-negative score variance and a horizon of at least 1
  the range has \<open>min <= max\<close>. For a falling history (average 2, trend -1 a day,
  variance 2) and a horizon of 100 days the range is from 0 to -93.
\<close>

theorem score_range_counterexample:
  "rangeMin (calculateScorePrediction fallingFeatures (Num 100)) = Num 0 \<and>
   rangeMax (calculateScorePrediction fallingFeatures (Num 100)) = Num (- 93) \<and>
   \<not> jle (rangeMin (calculateScorePrediction fallingFeatures (Num 100)))
          (rangeMax (calculateScorePrediction fallingFeatures (Num 100)))"
  by (simp add: calculateScorePrediction_def calculatePredictionMargin_def
        fallingFeatures_def Let_def sqrt_100)

lemma range_cases:
  assumes "jle lo hi"
  shows "jle (jmax (Num 0) (jround lo)) (jround hi) = jle (Num (- 1 / 2)) hi \<and>
         jle (jmax (Num 0) (jround lo)) (jround hi) = jle (Num 0) (jround hi) \<and>
         jle (Num 0) (jmax (Num 0) (jround lo))"
proof (cases lo)
  case (Num a)
  note lo = this
  show ?thesis
  proof (cases hi)
    case (Num b)
    have ab: "a \<le> b" using assms lo Num by simp
    have fm: "\<lfloor>a + 1 / 2\<rfloor> \<le> \<lfloor>b + 1 / 2\<rfloor>" using ab by (intro floor_mono) simp
    have z: "(0 \<le> \<lfloor>b + 1 / 2\<rfloor>) = (- 1 / 2 \<le> b)" by linarith
    show ?thesis using fm z ab by (auto simp: lo Num jmax_def)
  qed (use assms lo in \<open>auto simp: jmax_def\<close>)
next
  case PInf
  then show ?thesis using assms by (cases hi) (auto simp: jmax_def)
next
  case NInf
  then show ?thesis using assms by (cases hi) (auto simp: jmax_def; linarith)+
next
  case NaN
  then show ?thesis using assms by simp
qed

lemma margin_nonneg:
  assumes "rounding fp" and "scoreVariance f = Num v" and "0 \<le> v" and "0 \<le> h"
    and "calculatePredictionMargin_fp fp f (Num h) = Num m"
  shows "0 \<le> m"
proof -
  have half: "jle (Num 0) (fl fp (1 / 2))" by (rule fl_nonneg[OF assms(1)]) simp
  have tenth: "jle (Num 0) (fl fp (1 / 10))" by (rule fl_nonneg[OF assms(1)]) simp
  have v: "jle (Num 0) (scoreVariance f)" using assms(2,3) by simp
  have s: "jle (Num 0) (fsqrt fp (Num h))"
    using assms(1,4) by (simp add: fsqrt_def rounding_def)
  let ?bm = "fmul fp (scoreVariance f) (fl fp (1 / 2))"
  let ?hf = "fmul fp (fsqrt fp (Num h)) (fl fp (1 / 10))"
  let ?one = "fadd fp (Num 1) ?hf"
  have m: "fmul fp ?bm ?one = Num m"
    using assms(5) by (simp add: calculatePredictionMargin_fp_def Let_def)
  have bm: "?bm = NaN \<or> jle (Num 0) ?bm" by (rule fmul_nonneg[OF assms(1) v half])
  have hf: "?hf = NaN \<or> jle (Num 0) ?hf" by (rule fmul_nonneg[OF assms(1) s tenth])
  have bm': "jle (Num 0) ?bm"
  proof (rule ccontr)
    assume "\<not> jle (Num 0) ?bm"
    with bm have "?bm = NaN" by simp
    then have "fmul fp ?bm ?one = NaN" by (simp add: fmul_def rnd_def)
    with m show False by simp
  qed
  have hf': "jle (Num 0) ?hf"
  proof (rule ccontr)
    assume "\<not> jle (Num 0) ?hf"
    with hf have "?hf = NaN" by simp
    then have "?one = NaN" by (simp add: fadd_def rnd_def)
    then have "fmul fp ?bm ?one = NaN" by (simp add: fmul_def rnd_def)
    with m show False by simp
  qed
  have one: "jle (Num 0) ?one" by (rule fadd_nonneg[OF assms(1) _ hf']) simp
  from fmul_nonneg[OF assms(1) bm' one] m show ?thesis by simp
qed

text \<open>
  In exact arithmetic finite features give a finite predicted score and margin, the
  ones of the formulas.
\<close>

lemma predictedScore_exact:
  assumes "averageScore f = Num a" and "scoreTrend f = Num t" and "recentImprovement f = Num r"
    and "consistency f = Num c"
  shows "predictedScore_fp exactFpu f (Num h) = Num (a + t * h + r * min h 7 + c * 10)"
  using assms by (simp add: predictedScore_fp_def fadd_def fmul_def Let_def)

lemma margin_exact:
  assumes "scoreVariance f = Num v" and "0 \<le> h"
  shows "calculatePredictionMargin_fp exactFpu f (Num h) =
           Num (v * (1 / 2) * (1 + sqrt h * (1 / 10)))"
  using assms by (simp add: calculatePredictionMargin_fp_def fadd_def fmul_def Let_def)

text \<open>
  Claim C10, amended. For a non-negative score variance and a horizon of at least 1,
  with a predicted score \<open>p\<close> and a margin \<open>m\<close> that are numbers: the margin is
  \<open>scoreVariance * 0.5 * (1 + sqrt horizon * 0.1)\<close> and is not negative, \<open>range.min\<close> is
  \<open>max 0 (round (p - m))\<close> and is not negative, and \<open>range.max\<close> is \<open>round (p + m)\<close>,
  which is not floored at 0. The range has \<open>min <= max\<close> exactly when \<open>range.max\<close> is
  not negative, that is when the sum \<open>p + m\<close> as the code computes it is at least
  -0.5. All of this is in the arithmetic of the code: it holds for every unit that
  rounds as described above.
\<close>

theorem score_range_valid_iff_max_nonnegative:
  assumes "rounding fp" and "scoreVariance f = Num v" and "0 \<le> v" and "1 \<le> h"
    and "predictedScore_fp fp f (Num h) = Num p"
    and "calculatePredictionMargin_fp fp f (Num h) = Num m"
  shows "calculatePredictionMargin_fp fp f (Num h) =
           fmul fp (fmul fp (Num v) (fl fp (1 / 2)))
                   (fadd fp (Num 1) (fmul fp (Num (msqrt fp h)) (fl fp (1 / 10)))) \<and>
         0 \<le> m \<and>
         rangeMin (calculateScorePrediction_fp fp f (Num h)) =
           jmax (Num 0) (jround (fl fp (p - m))) \<and>
         rangeMax (calculateScorePrediction_fp fp f (Num h)) = jround (fl fp (p + m)) \<and>
         jle (Num 0) (rangeMin (calculateScorePrediction_fp fp f (Num h))) \<and>
         jle (rangeMin (calculateScorePrediction_fp fp f (Num h)))
             (rangeMax (calculateScorePrediction_fp fp f (Num h))) =
           jle (Num 0) (rangeMax (calculateScorePrediction_fp fp f (Num h))) \<and>
         jle (rangeMin (calculateScorePrediction_fp fp f (Num h)))
             (rangeMax (calculateScorePrediction_fp fp f (Num h))) =
           jle (Num (- 1 / 2)) (fl fp (p + m))"
proof -
  have h0: "0 \<le> h" using assms(4) by simp
  have m0: "0 \<le> m" by (rule margin_nonneg[OF assms(1,2,3) h0 assms(6)])
  have mg: "calculatePredictionMargin_fp fp f (Num h) =
           fmul fp (fmul fp (Num v) (fl fp (1 / 2)))
                   (fadd fp (Num 1) (fmul fp (Num (msqrt fp h)) (fl fp (1 / 10))))"
    using assms(2) h0 by (simp add: calculatePredictionMargin_fp_def fsqrt_def Let_def)
  have lo: "rangeMin (calculateScorePrediction_fp fp f (Num h)) =
              jmax (Num 0) (jround (fl fp (p - m)))"
    using assms(5,6) by (simp add: calculateScorePrediction_fp_def Let_def fsub_def rnd_def)
  have hi: "rangeMax (calculateScorePrediction_fp fp f (Num h)) = jround (fl fp (p + m))"
    using assms(5,6) by (simp add: calculateScorePrediction_fp_def Let_def fadd_def rnd_def)
  have "p - m \<le> p + m" using m0 by simp
  then have le: "jle (fl fp (p - m)) (fl fp (p + m))" by (rule fl_mono[OF assms(1)])
  note rc = range_cases[OF le]
  have c5: "jle (Num 0) (rangeMin (calculateScorePrediction_fp fp f (Num h)))"
    unfolding lo using rc by blast
  have c6: "jle (rangeMin (calculateScorePrediction_fp fp f (Num h)))
             (rangeMax (calculateScorePrediction_fp fp f (Num h))) =
           jle (Num 0) (rangeMax (calculateScorePrediction_fp fp f (Num h)))"
    unfolding lo hi using rc by blast
  have c7: "jle (rangeMin (calculateScorePrediction_fp fp f (Num h)))
             (rangeMax (calculateScorePrediction_fp fp f (Num h))) =
           jle (Num (- 1 / 2)) (fl fp (p + m))"
    unfolding lo hi using rc by blast
  from mg m0 lo hi c5 c6 c7 show ?thesis by (intro conjI)
qed

theorem score_range_valid_iff_max_nonnegative_witness:
  "rounding exactFpu \<and>
   predictedScore_fp exactFpu getDefaultFeatures (Num 1) = Num 55 \<and>
   calculatePredictionMargin_fp exactFpu getDefaultFeatures (Num 1) = Num (55 / 4) \<and>
   rangeMin (calculateScorePrediction_fp exactFpu getDefaultFeatures (Num 1)) = Num 41 \<and>
   rangeMax (calculateScorePrediction_fp exactFpu getDefaultFeatures (Num 1)) = Num 69 \<and>
   jle (rangeMin (calculateScorePrediction_fp exactFpu getDefaultFeatures (Num 1)))
       (rangeMax (calculateScorePrediction_fp exactFpu getDefaultFeatures (Num 1)))"
proof -
  have p: "predictedScore_fp exactFpu getDefaultFeatures (Num 1) = Num 55"
    by (simp add: predictedScore_fp_def fadd_def fmul_def Let_def getDefaultFeatures_def)
  have m: "calculatePredictionMargin_fp exactFpu getDefaultFeatures (Num 1) = Num (55 / 4)"
    by (simp add: calculatePredictionMargin_fp_def fadd_def fmul_def Let_def
          getDefaultFeatures_def)
  have v: "scoreVariance getDefaultFeatures = Num 25" by (simp add: getDefaultFeatures_def)
  show ?thesis
    using score_range_valid_iff_max_nonnegative[OF rounding_exactFpu v _ _ p m]
      rounding_exactFpu p m
    by simp
qed

section \<open>Session grouping and the record list\<close>

lemma groupIntoSessions_snd: "snd (groupIntoSessions games) = sort_key timestamp games"
  by (simp add: groupIntoSessions_def Let_def case_prod_unfold)

lemma calculateSessionDropoff_snd: "snd (calculateSessionDropoff games) = sort_key timestamp games"
  using groupIntoSessions_snd[of games]
  by (simp add: calculateSessionDropoff_def case_prod_unfold)

lemma extractChurnFeatures_snd: "snd (extractChurnFeatures now games) = sort_key timestamp games"
  using calculateSessionDropoff_snd[of games]
  by (simp add: extractChurnFeatures_def Let_def case_prod_unfold)

lemma sort_key_fixed_iff: "(sort_key f xs = xs) = sorted (map f xs)"
proof
  assume "sort_key f xs = xs"
  then have "map f xs = map f (sort_key f xs)" by simp
  then show "sorted (map f xs)" by (simp only: sorted_sort_key)
next
  assume "sorted (map f xs)"
  then show "sort_key f xs = xs" by (rule sort_key_id_if_sorted)
qed

text \<open>
  Claim C8, as stated: after a feature extraction the record list holds the same
  records in the same order. A list of two games, the later one first, comes back from
  the session grouping, and from the extraction of the churn features, with the
  earlier game first.
\<close>

theorem session_grouping_reorders_counterexample:
  "snd (groupIntoSessions [exampleGame 2000, exampleGame 1000]) =
     [exampleGame 1000, exampleGame 2000] \<and>
   snd (extractChurnFeatures 3000 [exampleGame 2000, exampleGame 1000]) =
     [exampleGame 1000, exampleGame 2000] \<and>
   snd (extractChurnFeatures 3000 [exampleGame 2000, exampleGame 1000]) \<noteq>
     [exampleGame 2000, exampleGame 1000]"
  by (simp add: groupIntoSessions_snd extractChurnFeatures_snd exampleGame_def)

text \<open>
  Claim C8, amended. The session grouping sorts the array it is given, in place, by
  ascending timestamp, keeping the order of records with equal timestamps. After the
  extraction of the churn features the record list holds the same records, each as
  often as before, in ascending order of timestamp; its order is unchanged exactly
  when it was already ascending.
\<close>

theorem session_grouping_sorts:
  "snd (groupIntoSessions games) = sort_key timestamp games \<and>
   snd (extractChurnFeatures now games) = sort_key timestamp games \<and>
   mset (snd (extractChurnFeatures now games)) = mset games \<and>
   sorted (map timestamp (snd (extractChurnFeatures now games))) \<and>
   (snd (extractChurnFeatures now games) = games) = sorted (map timestamp games)"
  by (simp add: groupIntoSessions_snd extractChurnFeatures_snd sort_key_fixed_iff)

theorem session_grouping_sorts_witness:
  "snd (groupIntoSessions [exampleGame 3000, exampleGame 1000, exampleGame 2000]) =
     [exampleGame 1000, exampleGame 2000, exampleGame 3000] \<and>
   mset (snd (extractChurnFeatures 4000 [exampleGame 3000, exampleGame 1000, exampleGame 2000]))
     = mset [exampleGame 3000, exampleGame 1000, exampleGame 2000] \<and>
   snd (extractChurnFeatures 4000 [exampleGame 1000, exampleGame 2000]) =
     [exampleGame 1000, exampleGame 2000]"
  using session_grouping_sorts[of "[exampleGame 3000, exampleGame 1000, exampleGame 2000]" 4000]
    session_grouping_sorts[of "[exampleGame 1000, exampleGame 2000]" 4000]
  by (simp add: exampleGame_def)

section \<open>Empty windows\<close>

text \<open>
  Claim C9. Every public method should return numbers that are defined, with no
  division over an empty set of records. The mean of no values is \<open>0 / 0\<close>, NaN. When no
  game of the user lies within the last 30 days, and in particular when the user has
  no game at all, the abandonment rate of the churn features is \<open>0 / 0\<close>, and
  \<open>predictChurnRisk\<close> returns, and caches, a result whose probability and confidence
  are NaN, with the risk level high.
\<close>

theorem predictChurnRisk_empty_window_NaN:
  assumes "userData srv u = Inr games"
    and "filter (\<lambda>g. timestamp g > now - 30 * 24 * 60 * 60 * 1000) games = []"
  shows "mean (map score (filter (\<lambda>g. timestamp g > now - 30 * 24 * 60 * 60 * 1000) games)) = NaN \<and>
         (\<exists>p eng' srv'. predictChurnRisk srv now newEngine u h = Inr (ChurnP p, eng', srv') \<and>
            cache eng' (churnKey u h) = Some (ChurnP p) \<and>
            probability p = NaN \<and> confidence_c p = NaN \<and> riskLevel p = ''high'')"
proof -
  let ?f = "fst (extractChurnFeatures now games)"
  have g: "gameAbandonment ?f = NaN"
    using assms(2)
    by (simp add: extractChurnFeatures_def Let_def calculateGameAbandonment_def case_prod_unfold)
  have r: "riskScore ?f = NaN" by (simp add: riskScore_def g)
  have c: "churnProbability ?f = NaN" by (simp add: churnProbability_def r)
  have cc: "calculateChurnConfidence ?f = NaN"
    by (simp add: calculateChurnConfidence_def g jmin_def)
  have m: "mean (map score (filter (\<lambda>g. timestamp g > now - 30 * 24 * 60 * 60 * 1000) games)) = NaN"
    using assms(2) by (simp add: mean_Nil)
  have "\<exists>p eng' srv'. predictChurnRisk srv now newEngine u h = Inr (ChurnP p, eng', srv') \<and>
            cache eng' (churnKey u h) = Some (ChurnP p) \<and>
            probability p = NaN \<and> confidence_c p = NaN \<and> riskLevel p = ''high''"
    using assms(1)
    by (simp add: predictChurnRisk_def newEngine_def getUserData_def Let_def
          calculateChurnPrediction_def c cc classifyRiskLevel_def)
  with m show ?thesis by blast
qed

theorem predictChurnRisk_empty_window_NaN_witness:
  "userData (exampleServer []) ''u1'' = Inr [] \<and>
   (\<exists>p eng' srv'. predictChurnRisk (exampleServer []) 1700000000000 newEngine ''u1'' 30 =
        Inr (ChurnP p, eng', srv') \<and>
      cache eng' (churnKey ''u1'' 30) = Some (ChurnP p) \<and>
      probability p = NaN \<and> confidence_c p = NaN \<and> riskLevel p = ''high'')"
proof -
  have d: "userData (exampleServer []) ''u1'' = Inr []" by (simp add: exampleServer_def)
  have e: "filter (\<lambda>g. timestamp g > 1700000000000 - 30 * 24 * 60 * 60 * 1000) [] = []"
    by simp
  from predictChurnRisk_empty_window_NaN[OF d e, of 30] d show ?thesis by blast
qed

end
